theory Spec2Isabelle
  imports Main
begin

section \<open>Errors and basic values\<close>

text \<open>
  Every \<^verbatim>\<open>raise\<close> of the modelled functions is one constructor. The
  Python exception class is given in the comment; the message text is dropped.
\<close>

datatype error =
    MissingElevenLabsKey          \<comment> \<open>ValueError, generate_scenes line 537\<close>
  | LoraArgsMissing                \<comment> \<open>ValueError, generate_scenes line 548\<close>
  | InvalidSceneDuration int       \<comment> \<open>ValueError, lines 596 and 607, and video_generator.py line 40\<close>
  | VideoGenerationFailed          \<comment> \<open>RuntimeError, lines 712, 738, 763\<close>
  | CouldNotOpenVideo              \<comment> \<open>RuntimeError, line 770\<close>
  | LastFrameExtractionFailed      \<comment> \<open>RuntimeError, line 786\<close>
  | UploadRaised                   \<comment> \<open>an exception escaping uploader.upload_image\<close>
  | NoUniqueFrameUrl nat int       \<comment> \<open>RuntimeError, line 807: vid_idx and scene number\<close>
  | SegmentLoadFailed              \<comment> \<open>an exception escaping VideoFileClip, line 811\<close>
  | NoSegmentVideo                 \<comment> \<open>IndexError of scene_videos[0], line 823\<close>
  | CopyFailed                     \<comment> \<open>an exception escaping shutil.copy2, line 825\<close>
  | BothInitialImages              \<comment> \<open>ValueError, generate_video line 1034\<close>
  | MissingLumaKey                 \<comment> \<open>ValueError, generate_video line 1037\<close>
  | NoClipsProcessed               \<comment> \<open>RuntimeError, stitch_videos line 981\<close>
  | NarrationTextFailed            \<comment> \<open>the exception re-raised by generate_narration_text, line 906\<close>
  | SceneMetadataFailed            \<comment> \<open>an exception escaping generate_scene_metadata\<close>
  | GenerationFailed               \<comment> \<open>RuntimeError, luma_video_gen.py line 93, video_generator.py line 163\<close>
  | TimeoutError                   \<comment> \<open>TimeoutError, luma_video_gen.py line 87\<close>

text \<open>
  A URL variable of the source holds a Python string or \<^verbatim>\<open>None\<close>.
  \<open>truthy\<close> is Python's truth value of such a variable: \<^verbatim>\<open>None\<close> and the
  empty string are false.
\<close>

type_synonym url = "string option"

fun truthy :: "string option \<Rightarrow> bool" where
  "truthy None = False"
| "truthy (Some s) = (s \<noteq> [])"

section \<open>Segment planner\<close>

text \<open>
  generate_scenes, video_generation_reference.py lines 588-607: the list
  \<^verbatim>\<open>video_durations\<close> computed from \<^verbatim>\<open>video_engine\<close> and
  \<^verbatim>\<open>scene['scene_duration']\<close>. Any engine string other than "ltx" and "fal"
  takes the Luma branch, as the \<^verbatim>\<open>else\<close> of the source does.
\<close>

definition video_durations :: "string \<Rightarrow> int \<Rightarrow> error + int list" where
  "video_durations video_engine scene_duration =
     (if video_engine \<in> set [''ltx'', ''fal''] then
        (if scene_duration = 5 then Inr [5]
         else if scene_duration = 10 then Inr [5, 5]
         else Inl (InvalidSceneDuration scene_duration))
      else
        (if scene_duration = 5 \<or> scene_duration = 9 then Inr [scene_duration]
         else if scene_duration = 14 then Inr [5, 9]
         else if scene_duration = 18 then Inr [9, 9]
         else Inl (InvalidSceneDuration scene_duration)))"

text \<open>VideoGenerator._get_video_durations, src/generators/video_generator.py lines 29-40.\<close>

definition get_video_durations :: "string \<Rightarrow> int \<Rightarrow> error + int list" where
  "get_video_durations video_engine scene_duration =
     (if video_engine = ''ltx'' then Inr [5]
      else if scene_duration = 5 \<or> scene_duration = 9 then Inr [scene_duration]
      else if scene_duration = 14 then Inr [5, 9]
      else if scene_duration = 18 then Inr [9, 9]
      else Inl (InvalidSceneDuration scene_duration))"

text \<open>
  The lookup tables as the specification writes them: one for Luma, one for
  the engines limited to five-second videos.
\<close>

definition luma_table :: "(int \<times> int list) list" where
  "luma_table = [(5, [5]), (9, [9]), (14, [5, 9]), (18, [9, 9])]"

definition ltx_fal_table :: "(int \<times> int list) list" where
  "ltx_fal_table = [(5, [5]), (10, [5, 5])]"

definition engine_table :: "string \<Rightarrow> (int \<times> int list) list" where
  "engine_table video_engine =
     (if video_engine = ''ltx'' \<or> video_engine = ''fal'' then ltx_fal_table else luma_table)"

definition table_plan :: "string \<Rightarrow> int \<Rightarrow> error + int list" where
  "table_plan video_engine d =
     (case map_of (engine_table video_engine) d of
        Some ds \<Rightarrow> Inr ds
      | None \<Rightarrow> Inl (InvalidSceneDuration d))"

section \<open>Data of the rendering pipeline\<close>

text \<open>
  A scene of the plan. generate_scenes reads \<^verbatim>\<open>scene['scene_number']\<close> and
  \<^verbatim>\<open>scene['scene_duration']\<close> for its control flow; the text fields are only
  handed to the external services, whose answers are given by \<open>world\<close> below, and
  are left out.
\<close>

record scene =
  scene_number :: int
  scene_duration :: int

text \<open>
  File names built by the f-strings of the source, one constructor per format:
  \<^item> \<open>SegmentVideo n\<close>: \<^verbatim>\<open>{scene_dir}/scene_{n}_{timestamp}.mp4\<close>
  \<^item> \<open>SegmentVideoIdx n k\<close>: \<^verbatim>\<open>{scene_dir}/scene_{n}_vid_{k}_{timestamp}.mp4\<close>
  \<^item> \<open>SoundEffect n\<close>: \<^verbatim>\<open>{scene_dir}/scene_{n}_sound.mp3\<close>
  \<^item> \<open>SceneVideo n\<close>: \<^verbatim>\<open>{video_dir}/scene_{n}_{timestamp}.mp4\<close>
  \<^item> \<open>NarrationAudio\<close>: \<^verbatim>\<open>{video_dir}/narration_audio_adjusted_{timestamp}.mp3\<close>
  \<^item> \<open>FinalVideo\<close>: \<^verbatim>\<open>{video_dir}/final_video_{timestamp}.mp4\<close>
  \<^item> \<open>OtherFile s\<close>: any other path a caller passes in.
\<close>

datatype path =
    SegmentVideo int
  | SegmentVideoIdx int nat
  | SoundEffect int
  | SceneVideo int
  | NarrationAudio
  | FinalVideo
  | OtherFile string

text \<open>
  Time is counted in ticks. A video is the list of its frames, one per tick,
  and a sound the list of its samples, one per tick, so the duration of either
  is its length, \<^verbatim>\<open>subclip(0, t)\<close> is \<open>take t\<close> and concatenation is
  \<open>concat\<close>. A file that exists may still be unreadable for the decoder.
\<close>

type_synonym video = "nat list"
type_synonym sound = "nat list"

datatype 'a stored = Unreadable | Content 'a

datatype 'a outcome = Raises | Returns 'a

datatype sound_outcome = SoundRaises | SoundEmpty | SoundSaved "sound stored"

datatype extract_outcome = NotOpened | NoFrameRead | FrameSaved

text \<open>
  The answers of the external collaborators during one run. Calls to the
  uploader are numbered from 0 in the order they are made; the other services
  are asked once per scene index \<open>i\<close> or per segment \<open>(i, vid_idx)\<close>.
\<close>

record world =
  w_eleven_labs_api_key :: bool
    \<comment> \<open>whether os.getenv("ELEVEN_LABS_API_KEY") is set\<close>
  w_upload_image :: "nat \<Rightarrow> url outcome"
    \<comment> \<open>uploader.upload_image, by call number\<close>
  w_initial_image_exists :: bool
    \<comment> \<open>os.path.exists(initial_image_path)\<close>
  w_generate_image :: "url outcome"
    \<comment> \<open>the image_url returned by luma_image_gen.generate_image\<close>
  w_run_inference :: "nat \<Rightarrow> url"
    \<comment> \<open>the URL of the first image of lora_inference.run_inference for scene i;
        None when the call raises or returns no image\<close>
  w_sound_effect :: "nat \<Rightarrow> sound_outcome"
    \<comment> \<open>text_to_sound_effects.convert and the file written from it, for scene i\<close>
  w_generate_video :: "nat \<Rightarrow> nat \<Rightarrow> video stored option"
    \<comment> \<open>the engine call for segment vid_idx of scene i: None when the call raises
        or leaves no file at video_path, otherwise the file it wrote\<close>
  w_extract :: "nat \<Rightarrow> nat \<Rightarrow> extract_outcome"
    \<comment> \<open>cv2 opening the segment's file and reading its last frame\<close>
  w_luma_api_key :: bool
    \<comment> \<open>whether os.getenv("LUMAAI_API_KEY") is set\<close>
  w_scene_metadata :: "scene list outcome"
    \<comment> \<open>generate_scene_metadata\<close>
  w_narration_text :: bool
    \<comment> \<open>generate_narration_text: False when it raises\<close>
  w_generate_speech :: bool
    \<comment> \<open>the value returned by eleven_labs_tts.generate_speech\<close>
  w_adjusted_narration :: "sound stored option"
    \<comment> \<open>loading the speech and writing the speed-adjusted audio: None when
        AudioFileClip or write_audiofile raises, otherwise the file written\<close>

text \<open>The arguments of generate_scenes other than the scene list.\<close>

record args =
  video_engine :: string
  skip_sound_effects :: bool
  initial_image_path :: "string option"
  initial_image_prompt :: "string option"
  lora_in_first_frame_mode :: bool
  lora_inference :: bool  \<comment> \<open>whether an inference object was passed\<close>
  lora_path :: "string option"

text \<open>One call of an engine's generate function, with the arguments that matter here.\<close>

record render_call =
  rc_scene :: nat        \<comment> \<open>the loop index i of the scene\<close>
  rc_vid_idx :: nat
  rc_duration :: int
  rc_output_path :: path
  rc_image_url :: url    \<comment> \<open>None when the key image_url is not set\<close>

text \<open>
  One accepted upload: the point where the source prints "Successfully uploaded
  frame with unique URL". \<open>acc_compared\<close> is the value of segment_last_frame_url
  the new URL was compared with.
\<close>

record accepted_upload =
  acc_scene :: nat
  acc_vid_idx :: nat
  acc_is_last :: bool
  acc_url :: url
  acc_compared :: url

datatype file_op = Copied path path | Concatenated "path list" path

text \<open>
  The variables of generate_scenes, the files of the working directory, and a
  log of the external effects: how many uploads were made, every
  \<^verbatim>\<open>time.sleep\<close> argument, every engine call, every accepted upload and every
  copy or concatenation.
\<close>

record state =
  videos :: "path \<rightharpoonup> video stored"
  sounds :: "path \<rightharpoonup> sound stored"
  uploads :: nat
  sleeps :: "nat list"
  render_calls :: "render_call list"
  accepted :: "accepted_upload list"
  file_ops :: "file_op list"
  first_frame_of_first_scene_url :: url
  last_frame_url :: url
  segment_last_frame_url :: url
  scene_start_image_url :: url
  scene_videos :: "path list"
  scene_video_files :: "path list"
  sound_effect_files :: "path option list"

definition init_state :: state where
  "init_state = \<lparr> videos = Map.empty, sounds = Map.empty, uploads = 0, sleeps = [],
     render_calls = [], accepted = [], file_ops = [],
     first_frame_of_first_scene_url = None, last_frame_url = None,
     segment_last_frame_url = None, scene_start_image_url = None,
     scene_videos = [], scene_video_files = [], sound_effect_files = [] \<rparr>"

text \<open>
  A statement that may raise: it returns the error, if any, and the state
  reached. \<open>andthen\<close> runs the next statement unless the first one raised.
\<close>

type_synonym result = "error option \<times> state"

definition andthen :: "result \<Rightarrow> (state \<Rightarrow> result) \<Rightarrow> result" where
  "andthen r f = (case fst r of None \<Rightarrow> f (snd r) | Some e \<Rightarrow> (Some e, snd r))"

section \<open>The upload loop\<close>

definition max_retries :: nat where
  "max_retries = 3"

text \<open>
  generate_scenes lines 793-804: the \<^verbatim>\<open>while retry_count < max_retries\<close> loop.
  It returns the final retry_count with the state. \<open>is_last\<close> is
  \<^verbatim>\<open>vid_idx == len(video_durations)\<close>.
\<close>

function upload_loop :: "world \<Rightarrow> nat \<Rightarrow> nat \<Rightarrow> bool \<Rightarrow> nat \<Rightarrow> state \<Rightarrow> error option \<times> nat \<times> state" where
  "upload_loop w i vid_idx is_last retry_count st =
     (if retry_count < max_retries then
        (case w_upload_image w (uploads st) of
           Raises \<Rightarrow> (Some UploadRaised, retry_count, st\<lparr>uploads := Suc (uploads st)\<rparr>)
         | Returns new_frame_url \<Rightarrow>
             (let st1 = st\<lparr>uploads := Suc (uploads st)\<rparr> in
              if new_frame_url \<noteq> segment_last_frame_url st1 then
                (let st2 = (if is_last then st1\<lparr>last_frame_url := new_frame_url\<rparr>
                            else st1\<lparr>segment_last_frame_url := new_frame_url\<rparr>)
                 in (None, retry_count,
                     st2\<lparr>accepted := accepted st2 @
                       [\<lparr>acc_scene = i, acc_vid_idx = vid_idx, acc_is_last = is_last,
                         acc_url = new_frame_url,
                         acc_compared = segment_last_frame_url st1\<rparr>]\<rparr>))
              else upload_loop w i vid_idx is_last (Suc retry_count)
                     (st1\<lparr>sleeps := sleeps st1 @ [2]\<rparr>)))
      else (None, retry_count, st))"
  by pat_completeness auto
termination
  by (relation "measure (\<lambda>(w, i, vid_idx, is_last, retry_count, st). max_retries - retry_count)") auto

text \<open>Lines 791-807: the loop from retry_count = 0 and the check after it.\<close>

definition upload_frame :: "world \<Rightarrow> nat \<Rightarrow> int \<Rightarrow> nat \<Rightarrow> bool \<Rightarrow> state \<Rightarrow> result" where
  "upload_frame w i number vid_idx is_last st =
     (case upload_loop w i vid_idx is_last 0 st of
        (Some e, retry_count, st') \<Rightarrow> (Some e, st')
      | (None, retry_count, st') \<Rightarrow>
          (if retry_count = max_retries then (Some (NoUniqueFrameUrl vid_idx number), st')
           else (None, st')))"

section \<open>Rendering the segments of a scene\<close>

text \<open>
  Lines 698-705, repeated at 720-727 and 749-756: the value stored under
  \<^verbatim>\<open>image_url\<close> in the engine's arguments, None when no branch sets the key.
\<close>

definition start_image :: "nat \<Rightarrow> nat \<Rightarrow> state \<Rightarrow> url" where
  "start_image i vid_idx st =
     (if vid_idx = 1 \<and> i = 0 \<and> truthy (first_frame_of_first_scene_url st)
        then first_frame_of_first_scene_url st
      else if vid_idx = 1 \<and> truthy (scene_start_image_url st)
        then scene_start_image_url st
      else if vid_idx = 1 \<and> i > 0 \<and> truthy (last_frame_url st)
        then last_frame_url st
      else if vid_idx > 1 \<and> truthy (segment_last_frame_url st)
        then segment_last_frame_url st
      else None)"

text \<open>
  Lines 542-543 and 690-763. fal_generator exists only for "fal" and
  luma_generator only for "luma"; "ltx" calls a module function. For any other
  engine string the Luma branch calls a method of None, and the exception is
  turned into the RuntimeError of line 763 before any engine is called.
\<close>

definition generator_available :: "string \<Rightarrow> bool" where
  "generator_available engine = (engine = ''fal'' \<or> engine = ''ltx'' \<or> engine = ''luma'')"

definition render_segment :: "world \<Rightarrow> string \<Rightarrow> nat \<Rightarrow> nat \<Rightarrow> int \<Rightarrow> path \<Rightarrow> state \<Rightarrow> result" where
  "render_segment w engine i vid_idx duration video_path st =
     (if \<not> generator_available engine then (Some VideoGenerationFailed, st)
      else
        (let st1 = st\<lparr>render_calls := render_calls st @
                    [\<lparr>rc_scene = i, rc_vid_idx = vid_idx, rc_duration = duration,
                      rc_output_path = video_path,
                      rc_image_url = start_image i vid_idx st\<rparr>]\<rparr>
         in case w_generate_video w i vid_idx of
              None \<Rightarrow> (Some VideoGenerationFailed, st1)
            | Some f \<Rightarrow> (None, st1\<lparr>videos := (videos st1)(video_path \<mapsto> f)\<rparr>)))"

text \<open>Lines 767-788: opening the segment and saving its last frame.\<close>

definition extract_last_frame :: "world \<Rightarrow> nat \<Rightarrow> nat \<Rightarrow> state \<Rightarrow> result" where
  "extract_last_frame w i vid_idx st =
     (case w_extract w i vid_idx of
        NotOpened \<Rightarrow> (Some CouldNotOpenVideo, st)
      | NoFrameRead \<Rightarrow> (Some LastFrameExtractionFailed, st)
      | FrameSaved \<Rightarrow> (None, st))"

text \<open>
  Lines 678-807: one iteration of \<^verbatim>\<open>for vid_idx, duration in
  enumerate(video_durations, 1)\<close>; \<open>n\<close> is \<^verbatim>\<open>len(video_durations)\<close>.
  The file name of the segment (lines 680-683) depends on whether the scene has
  one segment or more.
\<close>

definition segment_video_path :: "scene \<Rightarrow> nat \<Rightarrow> nat \<Rightarrow> path" where
  "segment_video_path sc n vid_idx =
     (if n = 1 then SegmentVideo (scene_number sc)
      else SegmentVideoIdx (scene_number sc) vid_idx)"

definition segment_body :: "world \<Rightarrow> string \<Rightarrow> nat \<Rightarrow> scene \<Rightarrow> nat \<Rightarrow> nat \<Rightarrow> int \<Rightarrow> state \<Rightarrow> result" where
  "segment_body w engine i sc n vid_idx duration st =
     (let video_path = segment_video_path sc n vid_idx
      in andthen (render_segment w engine i vid_idx duration video_path st) (\<lambda>st1.
         andthen (extract_last_frame w i vid_idx
                    (st1\<lparr>scene_videos := scene_videos st1 @ [video_path]\<rparr>)) (\<lambda>st2.
         upload_frame w i (scene_number sc) vid_idx (vid_idx = n) st2)))"

fun segments_loop :: "world \<Rightarrow> string \<Rightarrow> nat \<Rightarrow> scene \<Rightarrow> nat \<Rightarrow> nat \<Rightarrow> int list \<Rightarrow> state \<Rightarrow> result" where
  "segments_loop w engine i sc n vid_idx [] st = (None, st)"
| "segments_loop w engine i sc n vid_idx (duration # rest) st =
     (case segment_body w engine i sc n vid_idx duration st of
        (Some e, st') \<Rightarrow> (Some e, st')
      | (None, st') \<Rightarrow> segments_loop w engine i sc n (Suc vid_idx) rest st')"

section \<open>One scene\<close>

text \<open>
  Lines 611-644. When the written file is empty or missing, or the service
  raises, the entry is None and the file is never read again, so it is not
  recorded.
\<close>

definition sound_effects_step :: "world \<Rightarrow> bool \<Rightarrow> nat \<Rightarrow> scene \<Rightarrow> state \<Rightarrow> state" where
  "sound_effects_step w skip i sc st =
     (if skip then st\<lparr>sound_effect_files := sound_effect_files st @ [None]\<rparr>
      else
        (case w_sound_effect w i of
           SoundSaved f \<Rightarrow>
             st\<lparr>sounds := (sounds st)(SoundEffect (scene_number sc) \<mapsto> f),
                sound_effect_files :=
                  sound_effect_files st @ [Some (SoundEffect (scene_number sc))]\<rparr>
         | SoundEmpty \<Rightarrow> st\<lparr>sound_effect_files := sound_effect_files st @ [None]\<rparr>
         | SoundRaises \<Rightarrow> st\<lparr>sound_effect_files := sound_effect_files st @ [None]\<rparr>))"

text \<open>Lines 663-676: the LoRA first frame of the scene.\<close>

definition first_frame_step :: "world \<Rightarrow> args \<Rightarrow> nat \<Rightarrow> state \<Rightarrow> state" where
  "first_frame_step w a i st =
     st\<lparr>scene_start_image_url :=
          (if lora_in_first_frame_mode a then w_run_inference w i else None)\<rparr>"

text \<open>\<^verbatim>\<open>VideoFileClip(path)\<close>: the decoded video, if the file exists and is readable.\<close>

definition load_video :: "state \<Rightarrow> path \<Rightarrow> video option" where
  "load_video st p = (case videos st p of Some (Content v) \<Rightarrow> Some v | _ \<Rightarrow> None)"

fun load_videos :: "state \<Rightarrow> path list \<Rightarrow> video list option" where
  "load_videos st [] = Some []"
| "load_videos st (p # ps) =
     (case load_video st p of
        None \<Rightarrow> None
      | Some v \<Rightarrow> (case load_videos st ps of None \<Rightarrow> None | Some vs \<Rightarrow> Some (v # vs)))"

text \<open>moviepy's concatenate_videoclips on videos without sound: one clip after the other.\<close>

definition concatenate_videoclips :: "video list \<Rightarrow> video" where
  "concatenate_videoclips clips = concat clips"

text \<open>Lines 809-826: the scene's video is stitched from its segments, or copied.\<close>

definition stitch_scene :: "scene \<Rightarrow> state \<Rightarrow> result" where
  "stitch_scene sc st =
     (let out = SceneVideo (scene_number sc) in
      if length (scene_videos st) > 1 then
        (case load_videos st (scene_videos st) of
           None \<Rightarrow> (Some SegmentLoadFailed, st)
         | Some scene_clips \<Rightarrow>
             (None, st\<lparr>videos := (videos st)(out \<mapsto> Content (concatenate_videoclips scene_clips)),
                       file_ops := file_ops st @ [Concatenated (scene_videos st) out],
                       scene_video_files := scene_video_files st @ [out]\<rparr>))
      else
        (case scene_videos st of
           [] \<Rightarrow> (Some NoSegmentVideo, st)
         | single_video_path # _ \<Rightarrow>
             (case videos st single_video_path of
                None \<Rightarrow> (Some CopyFailed, st)
              | Some f \<Rightarrow>
                  (None, st\<lparr>videos := (videos st)(out \<mapsto> f),
                            file_ops := file_ops st @ [Copied single_video_path out],
                            scene_video_files := scene_video_files st @ [out]\<rparr>))))"

text \<open>Lines 583-828: one iteration of \<^verbatim>\<open>for i, scene in enumerate(scenes)\<close>.\<close>

definition scene_body :: "world \<Rightarrow> args \<Rightarrow> nat \<Rightarrow> scene \<Rightarrow> state \<Rightarrow> result" where
  "scene_body w a i sc st =
     (case video_durations (video_engine a) (scene_duration sc) of
        Inl e \<Rightarrow> (Some e, st)
      | Inr ds \<Rightarrow>
          (let st1 = sound_effects_step w (skip_sound_effects a) i sc (st\<lparr>scene_videos := []\<rparr>);
               st2 = first_frame_step w a i (st1\<lparr>segment_last_frame_url := None\<rparr>)
           in andthen (segments_loop w (video_engine a) i sc (length ds) 1 ds st2) (\<lambda>st3.
              andthen (stitch_scene sc st3) (\<lambda>st4.
              (None, st4\<lparr>sleeps := sleeps st4 @ [2]\<rparr>)))))"

fun scenes_loop :: "world \<Rightarrow> args \<Rightarrow> nat \<Rightarrow> scene list \<Rightarrow> state \<Rightarrow> result" where
  "scenes_loop w a i [] st = (None, st)"
| "scenes_loop w a i (sc # rest) st =
     (case scene_body w a i sc st of
        (Some e, st') \<Rightarrow> (Some e, st')
      | (None, st') \<Rightarrow> scenes_loop w a (Suc i) rest st')"

section \<open>generate_scenes\<close>

text \<open>Lines 553-580: the initial image, uploaded or generated.\<close>

definition initial_image :: "world \<Rightarrow> args \<Rightarrow> state \<Rightarrow> result" where
  "initial_image w a st =
     (if truthy (initial_image_path a) \<or> truthy (initial_image_prompt a) then
        (if truthy (initial_image_path a) \<and> w_initial_image_exists w then
           (case w_upload_image w (uploads st) of
              Raises \<Rightarrow> (Some UploadRaised, st\<lparr>uploads := Suc (uploads st)\<rparr>)
            | Returns u \<Rightarrow>
                (None, st\<lparr>uploads := Suc (uploads st), first_frame_of_first_scene_url := u\<rparr>))
         else if truthy (initial_image_prompt a) then
           (case w_generate_image w of
              Raises \<Rightarrow> (None, st\<lparr>first_frame_of_first_scene_url := None\<rparr>)
            | Returns image_url \<Rightarrow>
                (if truthy image_url then (None, st\<lparr>first_frame_of_first_scene_url := image_url\<rparr>)
                 else (None, st\<lparr>first_frame_of_first_scene_url := None\<rparr>)))
         else (None, st))
      else (None, st))"

text \<open>
  generate_scenes, lines 514-830. The function starts with empty result lists
  and no frame URL; on normal completion it returns
  \<open>(scene_video_files, sound_effect_files)\<close> of the final state.
\<close>

definition generate_scenes :: "world \<Rightarrow> args \<Rightarrow> scene list \<Rightarrow> state \<Rightarrow> result" where
  "generate_scenes w a scenes st0 =
     (let st = st0\<lparr>scene_video_files := [], sound_effect_files := [],
                  last_frame_url := None, first_frame_of_first_scene_url := None\<rparr>
      in if \<not> skip_sound_effects a \<and> \<not> w_eleven_labs_api_key w
           then (Some MissingElevenLabsKey, st)
         else if lora_in_first_frame_mode a \<and> (\<not> lora_inference a \<or> \<not> truthy (lora_path a))
           then (Some LoraArgsMissing, st)
         else andthen (initial_image w a st) (scenes_loop w a 0 scenes))"

section \<open>Final assembly\<close>

text \<open>A clip in memory: its frames and the sound attached to it, if any.\<close>

record clip =
  clip_frames :: video
  clip_audio :: "sound option"

definition clip_duration :: "clip \<Rightarrow> nat" where
  "clip_duration c = length (clip_frames c)"

text \<open>
  stitch_videos lines 961-970, for a loaded video and a loaded sound effect:
  \<^verbatim>\<open>subclip(0, t)\<close> keeps the first \<open>t\<close> ticks, set_audio attaches the sound.
\<close>

definition attach_sound :: "video \<Rightarrow> sound \<Rightarrow> clip" where
  "attach_sound video_clip audio_clip =
     (if length audio_clip > length video_clip then
        \<lparr>clip_frames = video_clip, clip_audio = Some (take (length video_clip) audio_clip)\<rparr>
      else if length audio_clip < length video_clip then
        \<lparr>clip_frames = take (length audio_clip) video_clip, clip_audio = Some audio_clip\<rparr>
      else \<lparr>clip_frames = video_clip, clip_audio = Some audio_clip\<rparr>)"

text \<open>
  Lines 953-978, the body of the loop. None is the outer \<^verbatim>\<open>except\<close>: the
  video could not be loaded and the scene is skipped. A sound file that exists
  but cannot be loaded is the inner \<^verbatim>\<open>except\<close>: the video goes on without it.
\<close>

definition process_scene :: "state \<Rightarrow> path \<Rightarrow> path option \<Rightarrow> clip option" where
  "process_scene st video_file sound_file =
     (case load_video st video_file of
        None \<Rightarrow> None
      | Some video_clip \<Rightarrow>
          (case sound_file of
             None \<Rightarrow> Some \<lparr>clip_frames = video_clip, clip_audio = None\<rparr>
           | Some p \<Rightarrow>
               (case sounds st p of
                  None \<Rightarrow> Some \<lparr>clip_frames = video_clip, clip_audio = None\<rparr>
                | Some Unreadable \<Rightarrow> Some \<lparr>clip_frames = video_clip, clip_audio = None\<rparr>
                | Some (Content audio_clip) \<Rightarrow> Some (attach_sound video_clip audio_clip))))"

fun collect_clips :: "state \<Rightarrow> (path \<times> path option) list \<Rightarrow> clip list" where
  "collect_clips st [] = []"
| "collect_clips st ((video_file, sound_file) # rest) =
     (case process_scene st video_file sound_file of
        None \<Rightarrow> collect_clips st rest
      | Some video_clip \<Rightarrow> video_clip # collect_clips st rest)"

text \<open>
  \<^verbatim>\<open>sound_effect_files or [None] * len(video_files)\<close>: None and the empty list
  are both replaced.
\<close>

definition sound_files_or_none :: "path option list option \<Rightarrow> nat \<Rightarrow> path option list" where
  "sound_files_or_none sound_files n =
     (case sound_files of
        None \<Rightarrow> replicate n None
      | Some [] \<Rightarrow> replicate n None
      | Some (x # xs) \<Rightarrow> x # xs)"

text \<open>
  The final video: the clips that were concatenated, in order, and the
  narration mixed over them, if any.
\<close>

record final_video =
  fv_clips :: "clip list"
  fv_narration :: "sound option"

definition final_frames :: "final_video \<Rightarrow> video" where
  "final_frames fv = concat (map clip_frames (fv_clips fv))"

text \<open>Lines 986-1001: the narration is added when its file exists and loads.\<close>

definition load_narration :: "state \<Rightarrow> path option \<Rightarrow> sound option" where
  "load_narration st narration_audio_path =
     (case narration_audio_path of
        None \<Rightarrow> None
      | Some p \<Rightarrow> (case sounds st p of Some (Content n) \<Rightarrow> Some n | _ \<Rightarrow> None))"

text \<open>
  stitch_videos, lines 949-1011; \<open>sound_files\<close> is the parameter
  \<^verbatim>\<open>sound_effect_files\<close>.
\<close>

definition stitch_videos ::
  "state \<Rightarrow> path list \<Rightarrow> path option list option \<Rightarrow> path option \<Rightarrow> error + path \<times> final_video" where
  "stitch_videos st video_files sound_files narration_audio_path =
     (let final_clips = collect_clips st
            (zip video_files (sound_files_or_none sound_files (length video_files)))
      in if final_clips = [] then Inl NoClipsProcessed
         else Inr (FinalVideo,
                   \<lparr>fv_clips = final_clips,
                     fv_narration = load_narration st narration_audio_path\<rparr>))"

section \<open>Narration and the whole run\<close>

definition calculate_total_duration :: "scene list \<Rightarrow> int" where
  "calculate_total_duration scenes = sum_list (map scene_duration scenes)"

text \<open>
  generate_narration_audio, lines 908-947. Every exception inside is caught
  and None returned: a failed generate_speech, an unreadable speech file, the
  division original_duration / target_duration by zero, a failed write.
\<close>

definition generate_narration_audio :: "world \<Rightarrow> int \<Rightarrow> state \<Rightarrow> path option \<times> state" where
  "generate_narration_audio w target_duration st =
     (if \<not> w_generate_speech w then (None, st)
      else if target_duration = 0 then (None, st)
      else
        (case w_adjusted_narration w of
           None \<Rightarrow> (None, st)
         | Some f \<Rightarrow> (Some NarrationAudio, st\<lparr>sounds := (sounds st)(NarrationAudio \<mapsto> f)\<rparr>)))"

text \<open>
  What generate_video returns: \<^verbatim>\<open>(str(e), None)\<close> from the \<^verbatim>\<open>except\<close>,
  \<^verbatim>\<open>(json, None)\<close> for metadata_only, \<^verbatim>\<open>(json, final_video)\<close> otherwise.
\<close>

datatype run_result =
    Failed error
  | MetadataOnly "scene list"
  | Finished "scene list" path final_video

text \<open>generate_video, lines 1013-1085.\<close>

definition generate_video :: "world \<Rightarrow> args \<Rightarrow> bool \<Rightarrow> bool \<Rightarrow> state \<Rightarrow> run_result" where
  "generate_video w a metadata_only skip_narration st =
     (if truthy (initial_image_path a) \<and> truthy (initial_image_prompt a) then Failed BothInitialImages
      else if (truthy (initial_image_prompt a) \<or> lora_in_first_frame_mode a) \<and> \<not> w_luma_api_key w
        then Failed MissingLumaKey
      else if lora_in_first_frame_mode a \<and> (\<not> lora_inference a \<or> \<not> truthy (lora_path a))
        then Failed LoraArgsMissing
      else
        (case w_scene_metadata w of
           Raises \<Rightarrow> Failed SceneMetadataFailed
         | Returns scenes \<Rightarrow>
             if metadata_only then MetadataOnly scenes
             else if \<not> skip_narration \<and> \<not> w_narration_text w then Failed NarrationTextFailed
             else
               (let (narration_audio_path, st1) =
                      (if skip_narration then (None, st)
                       else generate_narration_audio w (calculate_total_duration scenes) st)
                in case generate_scenes w a scenes st1 of
                     (Some e, st2) \<Rightarrow> Failed e
                   | (None, st2) \<Rightarrow>
                       (case stitch_videos st2 (scene_video_files st2)
                               (Some (sound_effect_files st2)) narration_audio_path of
                          Inl e \<Rightarrow> Failed e
                        | Inr (final_path, fv) \<Rightarrow> Finished scenes final_path fv))))"

section \<open>Waiting for a generation\<close>

text \<open>
  The \<^verbatim>\<open>state\<close> field of a generation as the poll loops read it: "completed",
  "failed", or anything else.
\<close>

datatype generation_state = Pending | Completed | FailedState

text \<open>
  VideoGenerator.generate_videos, video_generator.py lines 157-165:
  \<^verbatim>\<open>while True\<close> around generations.get. \<open>service k\<close> is the state the k-th
  call returns, \<open>now\<close> the clock in seconds, advanced by \<^verbatim>\<open>time.sleep(3)\<close>. The
  result is None when the loop never ends.
\<close>

partial_function (option) wait_for_completion ::
  "(nat \<Rightarrow> generation_state) \<Rightarrow> nat \<Rightarrow> nat \<Rightarrow> (error option \<times> nat) option" where
  "wait_for_completion service k now =
     (case service k of
        Completed \<Rightarrow> Some (None, now)
      | FailedState \<Rightarrow> Some (Some GenerationFailed, now)
      | Pending \<Rightarrow> wait_for_completion service (Suc k) (now + 3))"

declare wait_for_completion.simps [code]

definition timeout :: nat where
  "timeout = 300"

text \<open>
  LumaVideoGenerator.generate_video, luma_video_gen.py lines 81-95: the same
  loop with a check of the elapsed time first. \<open>latency\<close> is the time one
  generations.get takes.
\<close>

function luma_wait_for_completion ::
  "(nat \<Rightarrow> generation_state) \<Rightarrow> nat \<Rightarrow> nat \<Rightarrow> nat \<Rightarrow> nat \<Rightarrow> error option \<times> nat" where
  "luma_wait_for_completion service latency start_time k now =
     (if now - start_time > timeout then (Some TimeoutError, now)
      else
        (case service k of
           Completed \<Rightarrow> (None, now + latency)
         | FailedState \<Rightarrow> (Some GenerationFailed, now + latency)
         | Pending \<Rightarrow>
             luma_wait_for_completion service latency start_time (Suc k) (now + latency + 3)))"
  by pat_completeness auto
termination
  by (relation "measure (\<lambda>(service, latency, start_time, k, now). start_time + timeout + 1 - now)")
     auto

section \<open>Notions used to state the properties\<close>

text \<open>The scenes of an assembly whose video file loads, in order.\<close>

definition kept_scenes :: "state \<Rightarrow> (path \<times> path option) list \<Rightarrow> (path \<times> path option) list" where
  "kept_scenes st pairs =
     filter (\<lambda>(video_file, sound_file). load_video st video_file \<noteq> None) pairs"

text \<open>
  The accepted uploads that a later render may start from: the one of the
  previous segment of the same scene, and the one of the last segment of the
  previous scene.
\<close>

definition prev_segment_token :: "state \<Rightarrow> nat \<Rightarrow> nat \<Rightarrow> url \<Rightarrow> bool" where
  "prev_segment_token st i vid_idx u =
     (\<exists>e \<in> set (accepted st). acc_scene e = i \<and> Suc (acc_vid_idx e) = vid_idx \<and> acc_url e = u)"

definition prev_scene_token :: "state \<Rightarrow> nat \<Rightarrow> url \<Rightarrow> bool" where
  "prev_scene_token st i u =
     (\<exists>e \<in> set (accepted st). Suc (acc_scene e) = i \<and> acc_is_last e \<and> acc_url e = u)"

text \<open>
  The starting frame of an engine call is absent, or the previous segment's
  last frame, or the previous scene's last frame, or the initial frame.
\<close>

definition chained_start :: "state \<Rightarrow> render_call \<Rightarrow> bool" where
  "chained_start st rc =
     (rc_image_url rc = None
      \<or> (1 < rc_vid_idx rc \<and> prev_segment_token st (rc_scene rc) (rc_vid_idx rc) (rc_image_url rc))
      \<or> (rc_vid_idx rc = 1 \<and> 0 < rc_scene rc \<and> prev_scene_token st (rc_scene rc) (rc_image_url rc))
      \<or> (rc_vid_idx rc = 1 \<and> rc_scene rc = 0
            \<and> rc_image_url rc = first_frame_of_first_scene_url st))"

text \<open>
  An accepted upload differs from the URL it was compared with, and that URL
  is the token held within the scene: None for the first segment of a scene,
  the previous segment's accepted URL otherwise.
\<close>

definition compared_within_scene :: "state \<Rightarrow> accepted_upload \<Rightarrow> bool" where
  "compared_within_scene st e =
     (acc_url e \<noteq> acc_compared e \<and> 1 \<le> acc_vid_idx e
      \<and> (acc_vid_idx e = 1 \<longrightarrow> acc_compared e = None)
      \<and> (1 < acc_vid_idx e \<longrightarrow>
            prev_segment_token st (acc_scene e) (acc_vid_idx e) (acc_compared e)))"

text \<open>What holds before segment \<open>vid_idx\<close> of scene \<open>i\<close> is rendered.\<close>

definition seg_inv :: "args \<Rightarrow> nat \<Rightarrow> nat \<Rightarrow> state \<Rightarrow> bool" where
  "seg_inv a i vid_idx st =
     ((\<not> lora_in_first_frame_mode a \<longrightarrow>
         scene_start_image_url st = None
         \<and> (\<forall>rc \<in> set (render_calls st). chained_start st rc))
      \<and> (\<forall>e \<in> set (accepted st). compared_within_scene st e)
      \<and> (vid_idx = 1 \<longrightarrow>
            segment_last_frame_url st = None
            \<and> (0 < i \<longrightarrow> prev_scene_token st i (last_frame_url st)))
      \<and> (1 < vid_idx \<longrightarrow> prev_segment_token st i vid_idx (segment_last_frame_url st)))"

text \<open>What holds before scene \<open>i\<close> is started.\<close>

definition scene_inv :: "args \<Rightarrow> nat \<Rightarrow> state \<Rightarrow> bool" where
  "scene_inv a i st =
     ((\<not> lora_in_first_frame_mode a \<longrightarrow> (\<forall>rc \<in> set (render_calls st). chained_start st rc))
      \<and> (\<forall>e \<in> set (accepted st). compared_within_scene st e)
      \<and> (0 < i \<longrightarrow> prev_scene_token st i (last_frame_url st)))"

text \<open>
  The entry of scene \<open>i\<close> in sound_effect_files: the scene's sound file, or
  None when sound effects are skipped, the service raises, or the file written
  is empty.
\<close>

definition sound_entry :: "world \<Rightarrow> args \<Rightarrow> nat \<Rightarrow> scene \<Rightarrow> path option" where
  "sound_entry w a i sc =
     (if skip_sound_effects a then None
      else case w_sound_effect w i of
             SoundSaved f \<Rightarrow> Some (SoundEffect (scene_number sc))
           | SoundEmpty \<Rightarrow> None
           | SoundRaises \<Rightarrow> None)"

text \<open>
  The segment files of a scene as generate_scenes names them, and the copy or
  concatenation that makes the scene's video out of them.
\<close>

definition segment_files :: "string \<Rightarrow> scene \<Rightarrow> path list" where
  "segment_files engine sc =
     (case video_durations engine (scene_duration sc) of
        Inl e \<Rightarrow> []
      | Inr ds \<Rightarrow> map (segment_video_path sc (length ds)) [1..<Suc (length ds)])"

definition scene_file_op :: "string \<Rightarrow> scene \<Rightarrow> file_op" where
  "scene_file_op engine sc =
     (case segment_files engine sc of
        [p] \<Rightarrow> Copied p (SceneVideo (scene_number sc))
      | ps \<Rightarrow> Concatenated ps (SceneVideo (scene_number sc)))"

section \<open>Example worlds and arguments\<close>

text \<open>
  A world in which every service other than the uploader succeeds: no sound
  effects are produced, segment \<open>(i, k)\<close> is rendered as the two frames
  \<open>[i, k]\<close>, and the uploader answers as \<open>up\<close> says.
\<close>

definition stub_world :: "(nat \<Rightarrow> url outcome) \<Rightarrow> world" where
  "stub_world up =
     \<lparr> w_eleven_labs_api_key = True, w_upload_image = up, w_initial_image_exists = False,
       w_generate_image = Raises, w_run_inference = (\<lambda>i. None),
       w_sound_effect = (\<lambda>i. SoundRaises),
       w_generate_video = (\<lambda>i k. Some (Content [i, k])),
       w_extract = (\<lambda>i k. FrameSaved), w_luma_api_key = True,
       w_scene_metadata = Raises, w_narration_text = True, w_generate_speech = True,
       w_adjusted_narration = None \<rparr>"

definition plain_args :: "string \<Rightarrow> args" where
  "plain_args engine =
     \<lparr> video_engine = engine, skip_sound_effects = True, initial_image_path = None,
       initial_image_prompt = None, lora_in_first_frame_mode = False,
       lora_inference = False, lora_path = None \<rparr>"

text \<open>
  A working directory with the video of scene 1 (three frames) and of scene 2
  (two frames), a sound effect of five samples for scene 1 and an unreadable
  sound file for scene 2.
\<close>

definition two_scene_files :: state where
  "two_scene_files =
     init_state\<lparr>videos := [SceneVideo 1 \<mapsto> Content [1, 2, 3], SceneVideo 2 \<mapsto> Content [4, 5]],
                sounds := [SoundEffect 1 \<mapsto> Content [9, 9, 9, 9, 9], SoundEffect 2 \<mapsto> Unreadable]\<rparr>"

text \<open>Scene 7 rendered as one segment, and as two segments.\<close>

definition one_segment_state :: state where
  "one_segment_state =
     init_state\<lparr>videos := [SegmentVideo 7 \<mapsto> Content [1, 2]], scene_videos := [SegmentVideo 7]\<rparr>"

definition two_segment_state :: state where
  "two_segment_state =
     init_state\<lparr>videos := [SegmentVideoIdx 7 1 \<mapsto> Content [1, 2], SegmentVideoIdx 7 2 \<mapsto> Content [3]],
                scene_videos := [SegmentVideoIdx 7 1, SegmentVideoIdx 7 2]\<rparr>"

text \<open>
  A run over one scene of five seconds with narration: the uploader answers a
  new URL each time, the narration text is generated or not, and so is the
  speech.
\<close>

definition narrated_world :: "bool \<Rightarrow> bool \<Rightarrow> world" where
  "narrated_world text_ok speech_ok =
     (stub_world (\<lambda>k. Returns (Some (replicate (Suc k) CHR ''u''))))
       \<lparr>w_scene_metadata := Returns [\<lparr>scene_number = 1, scene_duration = 5\<rparr>],
        w_narration_text := text_ok, w_generate_speech := speech_ok,
        w_adjusted_narration := Some (Content [8, 8, 8])\<rparr>"

text \<open>
  Two scenes on Luma, of 5 and 14 seconds, so three segments; an uploader that
  answers a new URL at every call; a sound effect that fails for the first
  scene and is saved for the second.
\<close>

definition two_scenes :: "scene list" where
  "two_scenes = [\<lparr>scene_number = 1, scene_duration = 5\<rparr>, \<lparr>scene_number = 2, scene_duration = 14\<rparr>]"

definition fresh_urls_world :: world where
  "fresh_urls_world =
     (stub_world (\<lambda>k. Returns (Some (replicate (Suc k) CHR ''u''))))
       \<lparr>w_sound_effect := (\<lambda>i. if i = 0 then SoundRaises else SoundSaved (Content [7, 7]))\<rparr>"

definition sound_args :: args where
  "sound_args = (plain_args ''luma'')\<lparr>skip_sound_effects := False\<rparr>"

section \<open>Properties of the segment planner\<close>

lemma video_durations_table: "video_durations engine d = table_plan engine d"
  by (auto simp: video_durations_def table_plan_def engine_table_def luma_table_def
        ltx_fal_table_def)

lemma video_durations_sum: "video_durations engine d = Inr ds \<Longrightarrow> sum_list ds = d"
  by (auto simp: video_durations_def split: if_splits)

lemma video_durations_outside:
  "d \<notin> fst ` set (engine_table engine) \<Longrightarrow>
     video_durations engine d = Inl (InvalidSceneDuration d)"
  by (auto simp: video_durations_def engine_table_def luma_table_def ltx_fal_table_def
        split: if_splits)

lemma scene_body_invalid_duration:
  "video_durations (video_engine a) (scene_duration sc) = Inl e \<Longrightarrow>
     scene_body w a i sc st = (Some e, st)"
  by (simp add: scene_body_def)

lemma get_video_durations_luma:
  "engine \<noteq> ''ltx'' \<Longrightarrow> get_video_durations engine d = table_plan ''luma'' d"
  by (auto simp: get_video_durations_def table_plan_def engine_table_def luma_table_def)

text \<open>
  C2, as the code has it. The planner of generate_scenes follows the table of
  its engine (Luma: 5, 9, 14, 18; "ltx" and "fal": 5, 10), the durations it
  returns sum to the scene duration, and a duration outside the table is an
  error that ends the scene at once, with the state untouched: nothing is
  retried. VideoGenerator._get_video_durations follows the Luma table for
  every engine but "ltx", and for "ltx" plans 5 as [5].
\<close>

theorem planner_follows_engine_table:
  "video_durations engine d = table_plan engine d
   \<and> (\<forall>ds. video_durations engine d = Inr ds \<longrightarrow> sum_list ds = d)
   \<and> (d \<notin> fst ` set (engine_table engine) \<longrightarrow>
        video_durations engine d = Inl (InvalidSceneDuration d))
   \<and> (\<forall>e. video_durations (video_engine a) (scene_duration sc) = Inl e \<longrightarrow>
        scene_body w a i sc st = (Some e, st))
   \<and> (engine \<noteq> ''ltx'' \<longrightarrow> get_video_durations engine d = table_plan ''luma'' d)
   \<and> get_video_durations ''ltx'' 5 = Inr [5]"
  using video_durations_table video_durations_sum video_durations_outside
    scene_body_invalid_duration get_video_durations_luma
  by (simp add: get_video_durations_def)

theorem planner_follows_engine_table_witness:
  "video_durations ''luma'' 14 = Inr [5, 9] \<and> sum_list [5, 9] = (14 :: int)
   \<and> (7 :: int) \<notin> fst ` set (engine_table ''luma'')
   \<and> video_durations ''luma'' 7 = Inl (InvalidSceneDuration 7)
   \<and> video_durations (video_engine (plain_args ''fal''))
        (scene_duration \<lparr>scene_number = 1, scene_duration = 9\<rparr>) = Inl (InvalidSceneDuration 9)
   \<and> scene_body (stub_world (\<lambda>k. Raises)) (plain_args ''fal'') 0
        \<lparr>scene_number = 1, scene_duration = 9\<rparr> init_state = (Some (InvalidSceneDuration 9), init_state)
   \<and> ''luma'' \<noteq> ''ltx'' \<and> get_video_durations ''luma'' 7 = Inl (InvalidSceneDuration 7)"
  using planner_follows_engine_table [of "''luma''" 14 "plain_args ''fal''"
      "\<lparr>scene_number = 1, scene_duration = 9\<rparr>" "stub_world (\<lambda>k. Raises)" 0 init_state]
    planner_follows_engine_table [of "''luma''" 7 "plain_args ''fal''"
      "\<lparr>scene_number = 1, scene_duration = 9\<rparr>" "stub_world (\<lambda>k. Raises)" 0 init_state]
  by (simp add: table_plan_def engine_table_def luma_table_def plain_args_def
        video_durations_def)

text \<open>
  The claim as written fails on VideoGenerator._get_video_durations: for "ltx"
  a scene of 10 seconds is planned as [5], not [5, 5], the durations do not sum
  to 10, and a duration outside the table (7) is no error.
\<close>

theorem ltx_planner_counterexample:
  "get_video_durations ''ltx'' 10 = Inr [5]
   \<and> get_video_durations ''ltx'' 10 \<noteq> table_plan ''ltx'' 10
   \<and> sum_list [5] \<noteq> (10 :: int)
   \<and> get_video_durations ''ltx'' 7 = Inr [5]"
  by (simp add: get_video_durations_def table_plan_def engine_table_def ltx_fal_table_def)

section \<open>Properties of the upload loop\<close>

lemma upload_loop_bounds:
  "upload_loop w i v l r st = (e, r', st') \<Longrightarrow>
     uploads st \<le> uploads st' \<and> uploads st' \<le> uploads st + (max_retries - r) \<and>
     (\<exists>m. m \<le> max_retries - r \<and> sleeps st' = sleeps st @ replicate m 2)"
proof (induction w i v l r st arbitrary: e r' st' rule: upload_loop.induct)
  case (1 w i vid_idx is_last retry_count st)
  show ?case
  proof (cases "retry_count < max_retries")
    case False
    with "1.prems" show ?thesis by simp
  next
    case lt: True
    show ?thesis
    proof (cases "w_upload_image w (uploads st)")
      case Raises
      with lt "1.prems" show ?thesis by auto
    next
      case (Returns new_frame_url)
      show ?thesis
      proof (cases "new_frame_url \<noteq> segment_last_frame_url st")
        case True
        with lt Returns "1.prems" show ?thesis by (auto simp: Let_def split: if_splits)
      next
        case False
        define st1 where "st1 = st\<lparr>uploads := Suc (uploads st)\<rparr>"
        have nd: "\<not> new_frame_url \<noteq> segment_last_frame_url st1"
          using False by (simp add: st1_def)
        from False lt Returns "1.prems"
        have rec: "upload_loop w i vid_idx is_last (Suc retry_count)
                     (st1\<lparr>sleeps := sleeps st1 @ [2]\<rparr>) = (e, r', st')"
          by (simp add: Let_def st1_def)
        note ih = "1.IH"[OF lt Returns st1_def nd rec]
        then obtain m where m: "m \<le> max_retries - Suc retry_count"
            "sleeps st' = sleeps (st1\<lparr>sleeps := sleeps st1 @ [2]\<rparr>) @ replicate m 2"
          by blast
        have s: "sleeps st' = sleeps st @ replicate (Suc m) 2"
          using m(2) by (simp add: st1_def replicate_append_same)
        have le: "Suc m \<le> max_retries - retry_count" using m(1) lt by simp
        have u1: "uploads st \<le> uploads st'" using ih by (simp add: st1_def)
        have "uploads st' \<le> Suc (uploads st) + (max_retries - Suc retry_count)"
          using ih by (simp add: st1_def)
        then have u2: "uploads st' \<le> uploads st + (max_retries - retry_count)"
          using lt by arith
        from s le u1 u2 show ?thesis by blast
      qed
    qed
  qed
qed

lemma upload_frame_bounds:
  "uploads (snd (upload_frame w i number vid_idx is_last st)) \<le> uploads st + 3
   \<and> (\<exists>m\<le>3. sleeps (snd (upload_frame w i number vid_idx is_last st)) = sleeps st @ replicate m 2)"
proof -
  obtain e r' st' where l: "upload_loop w i vid_idx is_last 0 st = (e, r', st')"
    by (metis prod_cases3)
  have s: "snd (upload_frame w i number vid_idx is_last st) = st'"
    using l by (simp add: upload_frame_def split: option.splits)
  from upload_loop_bounds[OF l] show ?thesis
    unfolding s by (simp add: max_retries_def)
qed

lemma upload_frame_third_attempt:
  assumes "w_upload_image w (uploads st) = Returns (segment_last_frame_url st)"
    and "w_upload_image w (uploads st + 1) = Returns (segment_last_frame_url st)"
    and "w_upload_image w (uploads st + 2) = Returns u"
    and "u \<noteq> segment_last_frame_url st"
  shows "upload_frame w i number vid_idx is_last st =
     (None, (if is_last then st\<lparr>last_frame_url := u\<rparr> else st\<lparr>segment_last_frame_url := u\<rparr>)
        \<lparr>uploads := uploads st + 3, sleeps := sleeps st @ [2, 2],
         accepted := accepted st @
           [\<lparr>acc_scene = i, acc_vid_idx = vid_idx, acc_is_last = is_last,
             acc_url = u, acc_compared = segment_last_frame_url st\<rparr>]\<rparr>)"
  using assms
  by (simp add: upload_frame_def max_retries_def Let_def numeral_3_eq_3 numeral_2_eq_2)

lemma upload_frame_all_duplicates:
  assumes "\<forall>k<3. w_upload_image w (uploads st + k) = Returns (segment_last_frame_url st)"
  shows "upload_frame w i number vid_idx is_last st =
     (Some (NoUniqueFrameUrl vid_idx number),
      st\<lparr>uploads := uploads st + 3, sleeps := sleeps st @ [2, 2, 2]\<rparr>)"
proof -
  have a0: "w_upload_image w (uploads st) = Returns (segment_last_frame_url st)"
    using assms[rule_format, of 0] by simp
  have a1: "w_upload_image w (Suc (uploads st)) = Returns (segment_last_frame_url st)"
    using assms[rule_format, of 1] by simp
  have a2: "w_upload_image w (Suc (Suc (uploads st))) = Returns (segment_last_frame_url st)"
    using assms[rule_format, of 2] by simp
  show ?thesis using a0 a1 a2
    by (simp add: upload_frame_def max_retries_def Let_def numeral_3_eq_3)
qed

text \<open>
  C1. Uploading one extracted frame makes at most three upload calls and only
  sleeps of 2. When the uploader answers the held URL twice and then a new
  one, the third attempt is accepted: no error, three uploads, two sleeps, and
  the new URL is stored as the token (last_frame_url for the last segment of
  the scene, segment_last_frame_url otherwise). When all three answers are the
  held URL, the step fails with the error of line 807 after exactly three
  uploads, and no token is stored.
\<close>

theorem upload_retries_at_most_three:
  "uploads (snd (upload_frame w i number vid_idx is_last st)) \<le> uploads st + 3
   \<and> (\<exists>m\<le>3. sleeps (snd (upload_frame w i number vid_idx is_last st)) = sleeps st @ replicate m 2)
   \<and> (w_upload_image w (uploads st) = Returns (segment_last_frame_url st)
        \<and> w_upload_image w (uploads st + 1) = Returns (segment_last_frame_url st)
        \<and> w_upload_image w (uploads st + 2) = Returns u
        \<and> u \<noteq> segment_last_frame_url st
      \<longrightarrow> upload_frame w i number vid_idx is_last st =
           (None, (if is_last then st\<lparr>last_frame_url := u\<rparr>
                   else st\<lparr>segment_last_frame_url := u\<rparr>)
              \<lparr>uploads := uploads st + 3, sleeps := sleeps st @ [2, 2],
               accepted := accepted st @
                 [\<lparr>acc_scene = i, acc_vid_idx = vid_idx, acc_is_last = is_last,
                   acc_url = u, acc_compared = segment_last_frame_url st\<rparr>]\<rparr>))
   \<and> ((\<forall>k<3. w_upload_image w (uploads st + k) = Returns (segment_last_frame_url st))
      \<longrightarrow> upload_frame w i number vid_idx is_last st =
           (Some (NoUniqueFrameUrl vid_idx number),
            st\<lparr>uploads := uploads st + 3, sleeps := sleeps st @ [2, 2, 2]\<rparr>))"
  using upload_frame_bounds [of w i number vid_idx is_last st]
    upload_frame_third_attempt [of w st u i number vid_idx is_last]
    upload_frame_all_duplicates [of w st i number vid_idx is_last]
  by blast

theorem upload_retries_at_most_three_witness:
  "fst (upload_frame
         (stub_world (\<lambda>k. if k < 2 then Returns (Some ''old'') else Returns (Some ''new'')))
         0 1 2 True (init_state\<lparr>segment_last_frame_url := Some ''old''\<rparr>)) = None
   \<and> last_frame_url (snd (upload_frame
         (stub_world (\<lambda>k. if k < 2 then Returns (Some ''old'') else Returns (Some ''new'')))
         0 1 2 True (init_state\<lparr>segment_last_frame_url := Some ''old''\<rparr>))) = Some ''new''
   \<and> uploads (snd (upload_frame
         (stub_world (\<lambda>k. if k < 2 then Returns (Some ''old'') else Returns (Some ''new'')))
         0 1 2 True (init_state\<lparr>segment_last_frame_url := Some ''old''\<rparr>))) = 3
   \<and> upload_frame (stub_world (\<lambda>k. Returns (Some ''old''))) 0 1 2 True
         (init_state\<lparr>segment_last_frame_url := Some ''old''\<rparr>) =
       (Some (NoUniqueFrameUrl 2 1),
        init_state\<lparr>segment_last_frame_url := Some ''old'', uploads := 3, sleeps := [2, 2, 2]\<rparr>)"
  using upload_retries_at_most_three
      [of "stub_world (\<lambda>k. if k < 2 then Returns (Some ''old'') else Returns (Some ''new''))"
        0 1 2 True "init_state\<lparr>segment_last_frame_url := Some ''old''\<rparr>" "Some ''new''"]
    upload_retries_at_most_three
      [of "stub_world (\<lambda>k. Returns (Some ''old''))"
        0 1 2 True "init_state\<lparr>segment_last_frame_url := Some ''old''\<rparr>" "Some ''new''"]
  by (simp add: stub_world_def init_state_def)

section \<open>Properties of the scene stitcher\<close>

lemma load_videos_Some:
  "load_videos st ps = Some vs \<Longrightarrow> list_all2 (\<lambda>p v. videos st p = Some (Content v)) ps vs"
proof (induction ps arbitrary: vs)
  case Nil
  then show ?case by simp
next
  case (Cons p ps)
  then show ?case
    by (auto simp: load_video_def split: option.splits stored.splits)
qed

text \<open>
  C6. When the scene produced exactly one segment video, its file is copied
  to the scene's path and nothing is concatenated: the only file operation
  recorded is the copy, and the new file has the content of the segment. When
  it produced more than one, the scene's file is the concatenation of the
  segment videos in the order of scene_videos, and its duration is the sum of
  theirs.
\<close>

theorem scene_is_copied_or_concatenated:
  "(scene_videos st = [p] \<and> videos st p = Some f \<longrightarrow>
      stitch_scene sc st =
        (None, st\<lparr>videos := (videos st)(SceneVideo (scene_number sc) \<mapsto> f),
                  file_ops := file_ops st @ [Copied p (SceneVideo (scene_number sc))],
                  scene_video_files := scene_video_files st @ [SceneVideo (scene_number sc)]\<rparr>))
   \<and> (length (scene_videos st) > 1 \<and> load_videos st (scene_videos st) = Some clips \<longrightarrow>
      stitch_scene sc st =
        (None, st\<lparr>videos := (videos st)(SceneVideo (scene_number sc) \<mapsto> Content (concat clips)),
                  file_ops := file_ops st @
                    [Concatenated (scene_videos st) (SceneVideo (scene_number sc))],
                  scene_video_files := scene_video_files st @ [SceneVideo (scene_number sc)]\<rparr>)
      \<and> list_all2 (\<lambda>p v. videos st p = Some (Content v)) (scene_videos st) clips
      \<and> length (concat clips) = sum_list (map length clips))"
  using load_videos_Some [of st "scene_videos st" clips]
  by (simp add: stitch_scene_def concatenate_videoclips_def length_concat Let_def)

theorem scene_is_copied_or_concatenated_witness:
  "scene_videos one_segment_state = [SegmentVideo 7]
   \<and> videos one_segment_state (SegmentVideo 7) = Some (Content [1, 2])
   \<and> fst (stitch_scene \<lparr>scene_number = 7, scene_duration = 5\<rparr> one_segment_state) = None
   \<and> file_ops (snd (stitch_scene \<lparr>scene_number = 7, scene_duration = 5\<rparr> one_segment_state))
       = [Copied (SegmentVideo 7) (SceneVideo 7)]
   \<and> videos (snd (stitch_scene \<lparr>scene_number = 7, scene_duration = 5\<rparr> one_segment_state))
       (SceneVideo 7) = Some (Content [1, 2])
   \<and> length (scene_videos two_segment_state) > 1
   \<and> load_videos two_segment_state (scene_videos two_segment_state) = Some [ [1, 2], [3] ]
   \<and> file_ops (snd (stitch_scene \<lparr>scene_number = 7, scene_duration = 14\<rparr> two_segment_state))
       = [Concatenated [SegmentVideoIdx 7 1, SegmentVideoIdx 7 2] (SceneVideo 7)]
   \<and> videos (snd (stitch_scene \<lparr>scene_number = 7, scene_duration = 14\<rparr> two_segment_state))
       (SceneVideo 7) = Some (Content [1, 2, 3])"
  using scene_is_copied_or_concatenated
      [of one_segment_state "SegmentVideo 7" "Content [1, 2]"
        "\<lparr>scene_number = 7, scene_duration = 5\<rparr>" "[]"]
    scene_is_copied_or_concatenated
      [of two_segment_state "SegmentVideo 7" "Content [1, 2]"
        "\<lparr>scene_number = 7, scene_duration = 14\<rparr>" "[ [1, 2], [3] ]"]
  by (simp add: one_segment_state_def two_segment_state_def init_state_def load_video_def)

section \<open>Properties of the final assembly\<close>

lemma attach_sound_min:
  "clip_frames (attach_sound v a) = take (length a) v \<and>
   clip_audio (attach_sound v a) = Some (take (length v) a) \<and>
   clip_duration (attach_sound v a) = min (length v) (length a)"
  by (simp add: attach_sound_def clip_duration_def min_def)

text \<open>
  C7. For a scene video that loads and a sound-effect file that exists and
  loads, the clip put into the final video lasts as long as the shorter of
  the two: its frames are the video cut to the sound's duration and its sound
  is the sound cut to the video's duration.
\<close>

theorem sound_effect_clip_has_shorter_duration:
  "load_video st video_file = Some v \<and> sounds st p = Some (Content a) \<longrightarrow>
     (\<exists>c. process_scene st video_file (Some p) = Some c
        \<and> clip_duration c = min (length v) (length a)
        \<and> clip_frames c = take (length a) v
        \<and> clip_audio c = Some (take (length v) a))"
  using attach_sound_min [of v a] by (simp add: process_scene_def)

theorem sound_effect_clip_has_shorter_duration_witness:
  "load_video two_scene_files (SceneVideo 1) = Some [1, 2, 3]
   \<and> sounds two_scene_files (SoundEffect 1) = Some (Content [9, 9, 9, 9, 9])
   \<and> (\<exists>c. process_scene two_scene_files (SceneVideo 1) (Some (SoundEffect 1)) = Some c
        \<and> clip_duration c = 3 \<and> clip_frames c = [1, 2, 3] \<and> clip_audio c = Some [9, 9, 9])"
  using sound_effect_clip_has_shorter_duration
      [of two_scene_files "SceneVideo 1" "[1, 2, 3]" "SoundEffect 1" "[9, 9, 9, 9, 9]"]
  by (simp add: two_scene_files_def init_state_def load_video_def numeral_3_eq_3)

lemma process_scene_None: "process_scene st v s = None \<longleftrightarrow> load_video st v = None"
  by (simp add: process_scene_def split: option.splits stored.splits)

lemma collect_clips_kept:
  "map Some (collect_clips st pairs) =
     map (\<lambda>(v, s). process_scene st v s) (kept_scenes st pairs)"
proof (induction pairs)
  case Nil
  then show ?case by (simp add: kept_scenes_def)
next
  case (Cons x xs)
  obtain v s where x: "x = (v, s)" by (cases x)
  show ?case using Cons process_scene_None[of st v s]
    by (auto simp: x kept_scenes_def split: option.splits)
qed

lemma collect_clips_empty:
  "collect_clips st pairs = [] \<longleftrightarrow> (\<forall>x\<in>set pairs. load_video st (fst x) = None)"
proof (induction pairs)
  case Nil
  then show ?case by simp
next
  case (Cons x xs)
  obtain v s where x: "x = (v, s)" by (cases x)
  show ?case using Cons process_scene_None[of st v s]
    by (auto simp: x split: option.splits)
qed

text \<open>
  C8, as the code has it. A scene is dropped exactly when its video file
  does not load; a failure of its sound effect never drops it. stitch_videos
  raises, with "No video clips were successfully processed", exactly when no
  paired scene has a video that loads; otherwise it returns the one final
  video, made of the clips of the scenes whose video loaded, in their order.
\<close>

theorem assembly_keeps_scenes_whose_video_loads:
  "(stitch_videos st video_files sound_files narration = Inl NoClipsProcessed
      \<longleftrightarrow> (\<forall>x \<in> set (zip video_files (sound_files_or_none sound_files (length video_files))).
             load_video st (fst x) = None))
   \<and> (\<forall>r. stitch_videos st video_files sound_files narration = Inr r \<longrightarrow>
        fst r = FinalVideo
        \<and> map Some (fv_clips (snd r)) =
            map (\<lambda>(v, s). process_scene st v s)
              (kept_scenes st
                 (zip video_files (sound_files_or_none sound_files (length video_files)))))
   \<and> (\<forall>e. stitch_videos st video_files sound_files narration = Inl e \<longrightarrow> e = NoClipsProcessed)
   \<and> (process_scene st v s = None \<longleftrightarrow> load_video st v = None)"
  using collect_clips_kept
      [of st "zip video_files (sound_files_or_none sound_files (length video_files))"]
    collect_clips_empty
      [of st "zip video_files (sound_files_or_none sound_files (length video_files))"]
    process_scene_None [of st v s]
  by (auto simp: stitch_videos_def Let_def)

theorem assembly_keeps_scenes_whose_video_loads_witness:
  "stitch_videos two_scene_files [SceneVideo 1, SceneVideo 3, SceneVideo 2]
       (Some [Some (SoundEffect 1), None, None]) None =
     Inr (FinalVideo,
          \<lparr>fv_clips = [\<lparr>clip_frames = [1, 2, 3], clip_audio = Some [9, 9, 9]\<rparr>,
                       \<lparr>clip_frames = [4, 5], clip_audio = None\<rparr>],
            fv_narration = None\<rparr>)
   \<and> kept_scenes two_scene_files
       (zip [SceneVideo 1, SceneVideo 3, SceneVideo 2]
          (sound_files_or_none (Some [Some (SoundEffect 1), None, None]) 3)) =
       [(SceneVideo 1, Some (SoundEffect 1)), (SceneVideo 2, None)]
   \<and> stitch_videos two_scene_files [SceneVideo 3] None None = Inl NoClipsProcessed
   \<and> list_all (\<lambda>x. load_video two_scene_files (fst x) = None)
         (zip [SceneVideo 3] (sound_files_or_none None (length [SceneVideo 3])))"
  using assembly_keeps_scenes_whose_video_loads
      [of two_scene_files "[SceneVideo 1, SceneVideo 3, SceneVideo 2]"
        "Some [Some (SoundEffect 1), None, None]" None "SceneVideo 3" None]
    assembly_keeps_scenes_whose_video_loads
      [of two_scene_files "[SceneVideo 3]" None None "SceneVideo 3" None]
  by (simp add: two_scene_files_def init_state_def load_video_def stitch_videos_def
        sound_files_or_none_def process_scene_def attach_sound_def load_narration_def
        kept_scenes_def)

text \<open>
  The claim as written fails: scene 2 has a sound-effect file that exists
  and cannot be loaded, so its audio processing fails, yet the scene is not
  dropped; it is in the final video, without sound.
\<close>

theorem failed_sound_effect_keeps_scene_counterexample:
  "sounds two_scene_files (SoundEffect 2) = Some Unreadable
   \<and> stitch_videos two_scene_files [SceneVideo 2] (Some [Some (SoundEffect 2)]) None =
       Inr (FinalVideo,
            \<lparr>fv_clips = [\<lparr>clip_frames = [4, 5], clip_audio = None\<rparr>], fv_narration = None\<rparr>)"
  by (simp add: two_scene_files_def init_state_def load_video_def stitch_videos_def
        sound_files_or_none_def process_scene_def load_narration_def)

section \<open>Properties of the poll loops\<close>

lemma wait_terminal:
  "(\<forall>j<n. service (k + j) = Pending) \<Longrightarrow> service (k + n) \<noteq> Pending \<Longrightarrow>
     wait_for_completion service k now =
       Some (if service (k + n) = Completed then None else Some GenerationFailed, now + 3 * n)"
proof (induction n arbitrary: k now)
  case 0
  then show ?case
    by (subst wait_for_completion.simps) (simp split: generation_state.splits)
next
  case (Suc n)
  have p: "service k = Pending" using Suc.prems(1)[rule_format, of 0] by simp
  have a: "\<forall>j<n. service (Suc k + j) = Pending"
    using Suc.prems(1) by (metis add_Suc_shift Suc_less_eq)
  have b: "service (Suc k + n) \<noteq> Pending" using Suc.prems(2) by simp
  show ?case
    by (subst wait_for_completion.simps) (simp add: p Suc.IH[OF a b])
qed

lemma wait_returns_terminal:
  "wait_for_completion service k now = Some r \<Longrightarrow> \<exists>j. service j \<noteq> Pending"
  by (rule wait_for_completion.raw_induct
        [where P = "\<lambda>service k now r. \<exists>j. service j \<noteq> Pending"])
     (auto split: generation_state.splits, (metis generation_state.distinct)+)

lemma wait_forever: "(\<forall>j. service j = Pending) \<Longrightarrow> wait_for_completion service k now = None"
  using wait_returns_terminal [of service k now]
  by (cases "wait_for_completion service k now") auto

lemma luma_wait_terminal:
  "(\<forall>j<n. service (k + j) = Pending) \<Longrightarrow> service (k + n) \<noteq> Pending \<Longrightarrow>
   start_time \<le> now \<Longrightarrow> now + n * (latency + 3) \<le> start_time + timeout \<Longrightarrow>
     luma_wait_for_completion service latency start_time k now =
       (if service (k + n) = Completed then None else Some GenerationFailed,
        now + n * (latency + 3) + latency)"
proof (induction n arbitrary: k now)
  case 0
  then have "\<not> now - start_time > timeout" by simp
  with 0 show ?case by (simp split: generation_state.splits)
next
  case (Suc n)
  have p: "service k = Pending" using Suc.prems(1)[rule_format, of 0] by simp
  have a: "\<forall>j<n. service (Suc k + j) = Pending"
    using Suc.prems(1) by (metis add_Suc_shift Suc_less_eq)
  have b: "service (Suc k + n) \<noteq> Pending" using Suc.prems(2) by simp
  have c: "start_time \<le> now + latency + 3" using Suc.prems(3) by simp
  have d: "now + latency + 3 + n * (latency + 3) \<le> start_time + timeout"
    using Suc.prems(4) by (simp add: algebra_simps)
  have e: "\<not> now - start_time > timeout" using Suc.prems(3,4) by simp
  show ?case
    using Suc.IH[OF a b c d] p e by (simp add: algebra_simps)
qed

lemma luma_wait_timeout:
  "(\<forall>j. service j = Pending) \<Longrightarrow>
     fst (luma_wait_for_completion service latency start_time k now) = Some TimeoutError"
proof (induction service latency start_time k now rule: luma_wait_for_completion.induct)
  case (1 service latency start_time k now)
  show ?case
  proof (cases "now - start_time > timeout")
    case True
    then show ?thesis by simp
  next
    case False
    have p: "service k = Pending" using "1.prems" by simp
    show ?thesis using "1.IH"[OF False p "1.prems"] False p by simp
  qed
qed

text \<open>
  C5, as the code has it. Both loops sleep 3 seconds after every poll that
  finds the generation pending. The loop of VideoGenerator.generate_videos
  has no timeout: when the service first answers "completed" or "failed" at
  its n-th further poll, the loop returns that outcome after n sleeps, and
  when the service answers pending for ever the loop never returns. The loop
  of LumaVideoGenerator.generate_video returns the terminal outcome when it
  arrives within 300 seconds of the start, and raises TimeoutError when the
  generation stays pending.
\<close>

theorem polling_until_terminal_or_timeout:
  "((\<forall>j<n. service (k + j) = Pending) \<and> service (k + n) \<noteq> Pending \<longrightarrow>
      wait_for_completion service k now =
        Some (if service (k + n) = Completed then None else Some GenerationFailed, now + 3 * n))
   \<and> ((\<forall>j. service j = Pending) \<longrightarrow> wait_for_completion service k now = None)
   \<and> ((\<forall>j<n. service (k + j) = Pending) \<and> service (k + n) \<noteq> Pending
        \<and> start_time \<le> now \<and> now + n * (latency + 3) \<le> start_time + timeout \<longrightarrow>
      luma_wait_for_completion service latency start_time k now =
        (if service (k + n) = Completed then None else Some GenerationFailed,
         now + n * (latency + 3) + latency))
   \<and> ((\<forall>j. service j = Pending) \<longrightarrow>
      fst (luma_wait_for_completion service latency start_time k now) = Some TimeoutError)"
  using wait_terminal [of n service k now] wait_forever [of service k now]
    luma_wait_terminal [of n service k start_time now latency]
    luma_wait_timeout [of service latency start_time k now]
  by blast

theorem polling_until_terminal_or_timeout_witness:
  "wait_for_completion (\<lambda>k. if k < 4 then Pending else Completed) 0 0 = Some (None, 12)
   \<and> luma_wait_for_completion (\<lambda>k. if k < 4 then Pending else Completed) 1 0 0 0 = (None, 17)
   \<and> wait_for_completion (\<lambda>k. Pending) 0 0 = None
   \<and> fst (luma_wait_for_completion (\<lambda>k. Pending) 1 0 0 0) = Some TimeoutError"
  using polling_until_terminal_or_timeout
      [of 4 "\<lambda>k. if k < 4 then Pending else Completed" 0 0 0 1]
    polling_until_terminal_or_timeout [of 4 "\<lambda>k. Pending" 0 0 0 1]
  by (simp add: timeout_def)

text \<open>
  The claim as written fails on LumaVideoGenerator.generate_video: with a
  generation that is still pending at every poll, the loop gives up on its own
  with TimeoutError once more than 300 seconds have passed, here after 101
  sleeps.
\<close>

theorem luma_wait_aborts_pending_counterexample:
  "luma_wait_for_completion (\<lambda>k. Pending) 0 0 0 0 = (Some TimeoutError, 303)"
  by (simp add: timeout_def)

section \<open>Properties of the whole run\<close>

lemmas run_defs =
  stub_world_def plain_args_def generate_video_def
  generate_narration_audio_def calculate_total_duration_def generate_scenes_def
  init_state_def initial_image_def andthen_def scene_body_def video_durations_def
  sound_effects_step_def first_frame_step_def segment_body_def segment_video_path_def
  render_segment_def
  generator_available_def start_image_def extract_last_frame_def upload_frame_def
  max_retries_def stitch_scene_def stitch_videos_def sound_files_or_none_def
  process_scene_def load_video_def load_narration_def Let_def

lemma narration_audio_None:
  "fst (generate_narration_audio w t st) = None \<Longrightarrow> generate_narration_audio w t st = (None, st)"
  by (auto simp: generate_narration_audio_def split: if_splits option.splits)

lemma stitch_without_narration:
  "stitch_videos st vs ss None = Inr (p, fv) \<Longrightarrow> fv_narration fv = None"
  by (auto simp: stitch_videos_def Let_def load_narration_def split: if_splits)

lemma generate_video_skip_Finished:
  "generate_video w a mo True st = Finished scenes p fv \<Longrightarrow> fv_narration fv = None"
  by (auto simp: generate_video_def Let_def dest: stitch_without_narration
        split: if_splits outcome.splits option.splits sum.splits prod.splits)

text \<open>
  C9, as the code has it. When the narration text is generated and the
  narration audio fails (generate_narration_audio returns None), the run goes
  on exactly as a run with narration skipped, and a finished video carries no
  narration. When generate_narration_text raises, in a run that passes the
  argument checks and the scene planning, generate_video returns the error
  and no video.
\<close>

theorem narration_audio_failure_is_isolated:
  "(w_scene_metadata w = Returns scenes \<and> w_narration_text w
      \<and> fst (generate_narration_audio w (calculate_total_duration scenes) st) = None \<longrightarrow>
        generate_video w a mo False st = generate_video w a mo True st
        \<and> (\<forall>p fv. generate_video w a mo False st = Finished scenes p fv \<longrightarrow>
              fv_narration fv = None))
   \<and> (w_scene_metadata w = Returns scenes \<and> \<not> w_narration_text w \<and> \<not> mo
        \<and> generate_video w a True True st = MetadataOnly scenes \<longrightarrow>
        generate_video w a mo False st = Failed NarrationTextFailed)"
proof -
  have a: "generate_video w a mo False st = generate_video w a mo True st"
    if "w_scene_metadata w = Returns scenes" "w_narration_text w"
       "fst (generate_narration_audio w (calculate_total_duration scenes) st) = None"
    using that narration_audio_None[OF that(3)] by (auto simp: generate_video_def)
  have b: "generate_video w a mo False st = Failed NarrationTextFailed"
    if "w_scene_metadata w = Returns scenes" "\<not> w_narration_text w" "\<not> mo"
       "generate_video w a True True st = MetadataOnly scenes"
    using that by (auto simp: generate_video_def split: if_splits)
  show ?thesis using a b generate_video_skip_Finished[of w a mo st scenes] by metis
qed

theorem narration_audio_failure_is_isolated_witness:
  "w_scene_metadata (narrated_world True False) = Returns [\<lparr>scene_number = 1, scene_duration = 5\<rparr>]
   \<and> w_narration_text (narrated_world True False)
   \<and> fst (generate_narration_audio (narrated_world True False)
           (calculate_total_duration [\<lparr>scene_number = 1, scene_duration = 5\<rparr>]) init_state) = None
   \<and> generate_video (narrated_world True False) (plain_args ''luma'') False False init_state =
       Finished [\<lparr>scene_number = 1, scene_duration = 5\<rparr>] FinalVideo
         \<lparr>fv_clips = [\<lparr>clip_frames = [0, 1], clip_audio = None\<rparr>], fv_narration = None\<rparr>
   \<and> \<not> w_narration_text (narrated_world False True)
   \<and> generate_video (narrated_world False True) (plain_args ''luma'') True True init_state =
       MetadataOnly [\<lparr>scene_number = 1, scene_duration = 5\<rparr>]
   \<and> generate_video (narrated_world False True) (plain_args ''luma'') False False init_state =
       Failed NarrationTextFailed"
  using narration_audio_failure_is_isolated
      [of "narrated_world True False" "[\<lparr>scene_number = 1, scene_duration = 5\<rparr>]" init_state
        "plain_args ''luma''" False]
    narration_audio_failure_is_isolated
      [of "narrated_world False True" "[\<lparr>scene_number = 1, scene_duration = 5\<rparr>]" init_state
        "plain_args ''luma''" False]
  by (simp add: narrated_world_def run_defs)

text \<open>
  The claim as written fails: with narration enabled and the narration text
  generator raising, the run returns the error and no video, although the same
  run with narration skipped finishes with a final video.
\<close>

theorem narration_text_failure_aborts_run_counterexample:
  "generate_video (narrated_world False True) (plain_args ''luma'') False False init_state =
       Failed NarrationTextFailed
   \<and> generate_video (narrated_world False True) (plain_args ''luma'') False True init_state =
       Finished [\<lparr>scene_number = 1, scene_duration = 5\<rparr>] FinalVideo
         \<lparr>fv_clips = [\<lparr>clip_frames = [0, 1], clip_audio = None\<rparr>], fv_narration = None\<rparr>"
  by (simp add: narrated_world_def run_defs)

section \<open>Properties of the continuity chain\<close>

text \<open>What one run of the upload loop does to the state.\<close>

lemma upload_loop_effect:
  "upload_loop w i v l r st = (e, r', st') \<Longrightarrow>
     (\<exists>u s. st' = st\<lparr>uploads := u, sleeps := s\<rparr> \<and> (e \<noteq> None \<or> r' = max_retries \<or> max_retries < r))
   \<or> (\<exists>u s url. e = None \<and> r' < max_retries \<and> url \<noteq> segment_last_frame_url st \<and>
        st' = st\<lparr>uploads := u, sleeps := s,
                 accepted := accepted st @
                   [\<lparr>acc_scene = i, acc_vid_idx = v, acc_is_last = l, acc_url = url,
                     acc_compared = segment_last_frame_url st\<rparr>],
                 last_frame_url := (if l then url else last_frame_url st),
                 segment_last_frame_url := (if l then segment_last_frame_url st else url)\<rparr>)"
proof (induction w i v l r st arbitrary: e r' st' rule: upload_loop.induct)
  case (1 w i vid_idx is_last retry_count st)
  show ?case
  proof (cases "retry_count < max_retries")
    case False
    with "1.prems" have "st' = st" "e = None" "r' = retry_count" by simp_all
    then have "st' = st\<lparr>uploads := uploads st, sleeps := sleeps st\<rparr>" by simp
    with False \<open>e = None\<close> \<open>r' = retry_count\<close> show ?thesis
      by (metis linorder_neqE_nat)
  next
    case lt: True
    show ?thesis
    proof (cases "w_upload_image w (uploads st)")
      case Raises
      with lt "1.prems" have "st' = st\<lparr>uploads := Suc (uploads st), sleeps := sleeps st\<rparr>" "e \<noteq> None"
        by auto
      then show ?thesis by blast
    next
      case (Returns new_frame_url)
      show ?thesis
      proof (cases "new_frame_url \<noteq> segment_last_frame_url st")
        case True
        with lt Returns "1.prems"
        have "e = None" "r' < max_retries"
          "st' = st\<lparr>uploads := Suc (uploads st), sleeps := sleeps st,
                 accepted := accepted st @
                   [\<lparr>acc_scene = i, acc_vid_idx = vid_idx, acc_is_last = is_last, acc_url = new_frame_url,
                     acc_compared = segment_last_frame_url st\<rparr>],
                 last_frame_url := (if is_last then new_frame_url else last_frame_url st),
                 segment_last_frame_url := (if is_last then segment_last_frame_url st else new_frame_url)\<rparr>"
          by (auto simp: Let_def split: if_splits)
        with True show ?thesis by blast
      next
        case False
        define st1 where "st1 = st\<lparr>uploads := Suc (uploads st)\<rparr>"
        have nd: "\<not> new_frame_url \<noteq> segment_last_frame_url st1"
          using False by (simp add: st1_def)
        from False lt Returns "1.prems"
        have rec: "upload_loop w i vid_idx is_last (Suc retry_count)
                     (st1\<lparr>sleeps := sleeps st1 @ [2]\<rparr>) = (e, r', st')"
          by (simp add: Let_def st1_def)
        note ih = "1.IH"[OF lt Returns st1_def nd rec]
        have nlt: "\<not> max_retries < Suc retry_count" using lt by simp
        from ih show ?thesis
        proof
          assume "\<exists>u s. st' = st1\<lparr>sleeps := sleeps st1 @ [2]\<rparr>\<lparr>uploads := u, sleeps := s\<rparr> \<and>
              (e \<noteq> None \<or> r' = max_retries \<or> max_retries < Suc retry_count)"
          then obtain u s where "st' = st\<lparr>uploads := u, sleeps := s\<rparr>" "e \<noteq> None \<or> r' = max_retries"
            using nlt by (auto simp: st1_def)
          then show ?thesis by blast
        next
          assume "\<exists>u s url. e = None \<and> r' < max_retries \<and>
              url \<noteq> segment_last_frame_url (st1\<lparr>sleeps := sleeps st1 @ [2]\<rparr>) \<and>
              st' = st1\<lparr>sleeps := sleeps st1 @ [2]\<rparr>
                \<lparr>uploads := u, sleeps := s,
                 accepted := accepted (st1\<lparr>sleeps := sleeps st1 @ [2]\<rparr>) @
                   [\<lparr>acc_scene = i, acc_vid_idx = vid_idx, acc_is_last = is_last, acc_url = url,
                     acc_compared = segment_last_frame_url (st1\<lparr>sleeps := sleeps st1 @ [2]\<rparr>)\<rparr>],
                 last_frame_url := (if is_last then url else last_frame_url (st1\<lparr>sleeps := sleeps st1 @ [2]\<rparr>)),
                 segment_last_frame_url := (if is_last then segment_last_frame_url (st1\<lparr>sleeps := sleeps st1 @ [2]\<rparr>) else url)\<rparr>"
          then obtain u s url where "e = None" "r' < max_retries" "url \<noteq> segment_last_frame_url st"
            "st' = st\<lparr>uploads := u, sleeps := s,
                 accepted := accepted st @
                   [\<lparr>acc_scene = i, acc_vid_idx = vid_idx, acc_is_last = is_last, acc_url = url,
                     acc_compared = segment_last_frame_url st\<rparr>],
                 last_frame_url := (if is_last then url else last_frame_url st),
                 segment_last_frame_url := (if is_last then segment_last_frame_url st else url)\<rparr>"
            by (cases is_last) (auto simp: st1_def)
          then show ?thesis by blast
        qed
      qed
    qed
  qed
qed

lemma upload_frame_effect:
  assumes "upload_frame w i number v l st = (e, st')"
  shows "(e \<noteq> None \<and> (\<exists>u s. st' = st\<lparr>uploads := u, sleeps := s\<rparr>))
   \<or> (e = None \<and> (\<exists>u s url. url \<noteq> segment_last_frame_url st \<and>
        st' = st\<lparr>uploads := u, sleeps := s,
                 accepted := accepted st @
                   [\<lparr>acc_scene = i, acc_vid_idx = v, acc_is_last = l, acc_url = url,
                     acc_compared = segment_last_frame_url st\<rparr>],
                 last_frame_url := (if l then url else last_frame_url st),
                 segment_last_frame_url := (if l then segment_last_frame_url st else url)\<rparr>))"
proof -
  obtain e0 r' st0 where l: "upload_loop w i v l 0 st = (e0, r', st0)"
    by (metis prod_cases3)
  have nz: "\<not> max_retries < 0" by simp
  from upload_loop_effect[OF l] show ?thesis
  proof
    assume "\<exists>u s. st0 = st\<lparr>uploads := u, sleeps := s\<rparr> \<and> (e0 \<noteq> None \<or> r' = max_retries \<or> max_retries < 0)"
    then obtain u s where a: "st0 = st\<lparr>uploads := u, sleeps := s\<rparr>" "e0 \<noteq> None \<or> r' = max_retries"
      by auto
    from a(2) l assms have "e \<noteq> None \<and> st' = st0"
      by (auto simp: upload_frame_def split: option.splits if_splits)
    with a(1) show ?thesis by blast
  next
    assume "\<exists>u s url. e0 = None \<and> r' < max_retries \<and> url \<noteq> segment_last_frame_url st \<and>
        st0 = st\<lparr>uploads := u, sleeps := s,
                 accepted := accepted st @
                   [\<lparr>acc_scene = i, acc_vid_idx = v, acc_is_last = l, acc_url = url,
                     acc_compared = segment_last_frame_url st\<rparr>],
                 last_frame_url := (if l then url else last_frame_url st),
                 segment_last_frame_url := (if l then segment_last_frame_url st else url)\<rparr>"
    then obtain u s url where a: "e0 = None" "r' < max_retries" "url \<noteq> segment_last_frame_url st"
        "st0 = st\<lparr>uploads := u, sleeps := s,
                 accepted := accepted st @
                   [\<lparr>acc_scene = i, acc_vid_idx = v, acc_is_last = l, acc_url = url,
                     acc_compared = segment_last_frame_url st\<rparr>],
                 last_frame_url := (if l then url else last_frame_url st),
                 segment_last_frame_url := (if l then segment_last_frame_url st else url)\<rparr>"
      by blast
    from a(1,2) l assms have "e = None \<and> st' = st0"
      by (auto simp: upload_frame_def split: option.splits if_splits)
    with a(3,4) show ?thesis by blast
  qed
qed


lemma tokens_mono:
  assumes "set (accepted st) \<subseteq> set (accepted st')"
  shows "prev_segment_token st i v u \<Longrightarrow> prev_segment_token st' i v u"
    and "prev_scene_token st i u \<Longrightarrow> prev_scene_token st' i u"
  using assms by (auto simp: prev_segment_token_def prev_scene_token_def)

lemma chained_start_mono:
  assumes "set (accepted st) \<subseteq> set (accepted st')"
    and "first_frame_of_first_scene_url st' = first_frame_of_first_scene_url st"
    and "chained_start st rc"
  shows "chained_start st' rc"
  using assms tokens_mono[OF assms(1)] unfolding chained_start_def by metis

lemma compared_mono:
  assumes "set (accepted st) \<subseteq> set (accepted st')" and "compared_within_scene st e"
  shows "compared_within_scene st' e"
  using assms tokens_mono(1)[OF assms(1)] unfolding compared_within_scene_def by metis

lemma start_image_chained:
  assumes "seg_inv a i v st" "\<not> lora_in_first_frame_mode a" "1 \<le> v"
  shows "chained_start st \<lparr>rc_scene = i, rc_vid_idx = v, rc_duration = d, rc_output_path = p,
                           rc_image_url = start_image i v st\<rparr>"
  using assms by (auto simp: seg_inv_def chained_start_def start_image_def)


lemma segment_body_shape:
  assumes body: "segment_body w eng i sc n v d st = (r, st')"
  defines "rc \<equiv> \<lparr>rc_scene = i, rc_vid_idx = v, rc_duration = d,
                  rc_output_path = segment_video_path sc n v,
                  rc_image_url = start_image i v st\<rparr>"
  shows "first_frame_of_first_scene_url st' = first_frame_of_first_scene_url st
     \<and> scene_start_image_url st' = scene_start_image_url st
     \<and> scene_video_files st' = scene_video_files st
     \<and> sound_effect_files st' = sound_effect_files st
     \<and> file_ops st' = file_ops st
     \<and> ((r \<noteq> None \<and> accepted st' = accepted st
           \<and> (render_calls st' = render_calls st \<or> render_calls st' = render_calls st @ [rc]))
        \<or> (r = None \<and> render_calls st' = render_calls st @ [rc]
            \<and> scene_videos st' = scene_videos st @ [segment_video_path sc n v]
            \<and> (\<exists>url. url \<noteq> segment_last_frame_url st
                 \<and> accepted st' = accepted st @
                      [\<lparr>acc_scene = i, acc_vid_idx = v, acc_is_last = (v = n), acc_url = url,
                        acc_compared = segment_last_frame_url st\<rparr>]
                 \<and> last_frame_url st' = (if v = n then url else last_frame_url st)
                 \<and> segment_last_frame_url st' = (if v = n then segment_last_frame_url st else url))))"
proof (cases "generator_available eng")
  case False
  with body have "st' = st" "r \<noteq> None"
    by (auto simp: segment_body_def render_segment_def andthen_def Let_def)
  then show ?thesis by simp
next
  case ga: True
  define st1 where "st1 = st\<lparr>render_calls := render_calls st @ [rc]\<rparr>"
  show ?thesis
  proof (cases "w_generate_video w i v")
    case None
    with ga body have "st' = st1" "r \<noteq> None"
      by (auto simp: segment_body_def render_segment_def andthen_def Let_def st1_def rc_def)
    then show ?thesis by (simp add: st1_def)
  next
    case (Some f)
    define st2 where "st2 = st1\<lparr>videos := (videos st1)(segment_video_path sc n v \<mapsto> f),
        scene_videos := scene_videos st1 @ [segment_video_path sc n v]\<rparr>"
    show ?thesis
    proof (cases "w_extract w i v = FrameSaved")
      case False
      with ga Some body have "st' = st2" "r \<noteq> None"
        by (auto simp: segment_body_def render_segment_def andthen_def Let_def st1_def st2_def
              rc_def extract_last_frame_def split: extract_outcome.splits)
      then show ?thesis by (simp add: st1_def st2_def)
    next
      case True
      with ga Some body have up: "upload_frame w i (scene_number sc) v (v = n) st2 = (r, st')"
        by (auto simp: segment_body_def render_segment_def andthen_def Let_def st1_def st2_def
              rc_def extract_last_frame_def)
      from upload_frame_effect[OF up] show ?thesis
      proof
        assume "r \<noteq> None \<and> (\<exists>u s. st' = st2\<lparr>uploads := u, sleeps := s\<rparr>)"
        then show ?thesis by (auto simp: st1_def st2_def)
      next
        assume "r = None \<and> (\<exists>u s url. url \<noteq> segment_last_frame_url st2 \<and>
          st' = st2\<lparr>uploads := u, sleeps := s,
                 accepted := accepted st2 @
                   [\<lparr>acc_scene = i, acc_vid_idx = v, acc_is_last = (v = n), acc_url = url,
                     acc_compared = segment_last_frame_url st2\<rparr>],
                 last_frame_url := (if v = n then url else last_frame_url st2),
                 segment_last_frame_url := (if v = n then segment_last_frame_url st2 else url)\<rparr>)"
        then show ?thesis by (cases "v = n") (auto simp: st1_def st2_def)
      qed
    qed
  qed
qed


lemma segment_body_inv:
  assumes inv: "seg_inv a i v st" and v1: "1 \<le> v"
    and body: "segment_body w eng i sc n v d st = (r, st')"
  shows "(\<not> lora_in_first_frame_mode a \<longrightarrow>
            scene_start_image_url st' = None
            \<and> (\<forall>rc \<in> set (render_calls st'). chained_start st' rc))
       \<and> (\<forall>e \<in> set (accepted st'). compared_within_scene st' e)
       \<and> first_frame_of_first_scene_url st' = first_frame_of_first_scene_url st
       \<and> (r = None \<longrightarrow>
            (v \<noteq> n \<longrightarrow> prev_segment_token st' i (Suc v) (segment_last_frame_url st'))
            \<and> (v = n \<longrightarrow> prev_scene_token st' (Suc i) (last_frame_url st')))"
proof -
  define rc where "rc = \<lparr>rc_scene = i, rc_vid_idx = v, rc_duration = d,
                  rc_output_path = segment_video_path sc n v,
                  rc_image_url = start_image i v st\<rparr>"
  note shape = segment_body_shape[OF body, folded rc_def]
  have ff: "first_frame_of_first_scene_url st' = first_frame_of_first_scene_url st"
    and ss: "scene_start_image_url st' = scene_start_image_url st"
    using shape by simp_all
  have sub: "set (accepted st) \<subseteq> set (accepted st')" using shape by auto
  have rcs: "set (render_calls st') \<subseteq> insert rc (set (render_calls st))" using shape by auto
  have old_comp: "\<forall>e \<in> set (accepted st). compared_within_scene st' e"
    using inv compared_mono[OF sub] by (auto simp: seg_inv_def)
  have chained: "scene_start_image_url st' = None \<and> (\<forall>rc \<in> set (render_calls st'). chained_start st' rc)"
    if nl: "\<not> lora_in_first_frame_mode a"
  proof -
    have "chained_start st rc" unfolding rc_def by (rule start_image_chained[OF inv nl v1])
    moreover have "\<forall>x \<in> set (render_calls st). chained_start st x"
      using inv nl by (simp add: seg_inv_def)
    ultimately have "\<forall>x \<in> set (render_calls st'). chained_start st' x"
      using rcs chained_start_mono[OF sub ff] by blast
    moreover have "scene_start_image_url st' = None" using inv nl ss by (simp add: seg_inv_def)
    ultimately show ?thesis by simp
  qed
  show ?thesis
  proof (cases "r = None")
    case False
    then have "accepted st' = accepted st" using shape by auto
    with old_comp chained ff False show ?thesis by auto
  next
    case True
    with shape obtain url where u: "url \<noteq> segment_last_frame_url st"
        "accepted st' = accepted st @
           [\<lparr>acc_scene = i, acc_vid_idx = v, acc_is_last = (v = n), acc_url = url,
             acc_compared = segment_last_frame_url st\<rparr>]"
        "last_frame_url st' = (if v = n then url else last_frame_url st)"
        "segment_last_frame_url st' = (if v = n then segment_last_frame_url st else url)"
      by auto
    define e where "e = \<lparr>acc_scene = i, acc_vid_idx = v, acc_is_last = (v = n), acc_url = url,
             acc_compared = segment_last_frame_url st\<rparr>"
    have emem: "e \<in> set (accepted st')" using u(2) by (simp add: e_def)
    have "compared_within_scene st e"
      using inv v1 u(1) by (auto simp: seg_inv_def compared_within_scene_def e_def)
    then have "compared_within_scene st' e" using compared_mono[OF sub] by blast
    with old_comp u(2) have comp: "\<forall>x \<in> set (accepted st'). compared_within_scene st' x"
      by (auto simp: e_def)
    have t1: "prev_segment_token st' i (Suc v) (segment_last_frame_url st')" if "v \<noteq> n"
      unfolding prev_segment_token_def using that emem u(4)
      by (intro bexI[of _ e]) (simp_all add: e_def)
    have t2: "prev_scene_token st' (Suc i) (last_frame_url st')" if "v = n"
      unfolding prev_scene_token_def using that emem u(3)
      by (intro bexI[of _ e]) (simp_all add: e_def)
    from comp chained ff t1 t2 show ?thesis by blast
  qed
qed

lemma segments_loop_inv:
  assumes "seg_inv a i v st" "1 \<le> v" "v + length ds = Suc n"
    and "segments_loop w eng i sc n v ds st = (r, st')"
  shows "(\<not> lora_in_first_frame_mode a \<longrightarrow> (\<forall>rc \<in> set (render_calls st'). chained_start st' rc))
       \<and> (\<forall>e \<in> set (accepted st'). compared_within_scene st' e)
       \<and> first_frame_of_first_scene_url st' = first_frame_of_first_scene_url st
       \<and> (r = None \<and> ds \<noteq> [] \<longrightarrow> prev_scene_token st' (Suc i) (last_frame_url st'))"
  using assms
proof (induction ds arbitrary: v st)
  case Nil
  then show ?case by (simp add: seg_inv_def)
next
  case (Cons d ds)
  obtain r1 st1 where b: "segment_body w eng i sc n v d st = (r1, st1)" by (cases "segment_body w eng i sc n v d st")
  note step = segment_body_inv[OF Cons.prems(1,2) b]
  show ?case
  proof (cases r1)
    case (Some err)
    with b Cons.prems(4) have "st' = st1" "r = Some err" by simp_all
    with step show ?thesis by simp
  next
    case None
    with b Cons.prems(4) have rest: "segments_loop w eng i sc n (Suc v) ds st1 = (r, st')" by simp
    show ?thesis
    proof (cases ds)
      case Nil
      with rest have "st' = st1" "r = None" by simp_all
      moreover have "v = n" using Cons.prems(3) Nil by simp
      ultimately show ?thesis using step None by simp
    next
      case (Cons d' ds')
      then have vn: "v \<noteq> n" using Cons.prems(3) by simp
      have inv1: "seg_inv a i (Suc v) st1"
        using step None vn Cons.prems(2) by (simp add: seg_inv_def)
      have "(\<not> lora_in_first_frame_mode a \<longrightarrow> (\<forall>rc \<in> set (render_calls st'). chained_start st' rc))
       \<and> (\<forall>e \<in> set (accepted st'). compared_within_scene st' e)
       \<and> first_frame_of_first_scene_url st' = first_frame_of_first_scene_url st1
       \<and> (r = None \<and> ds \<noteq> [] \<longrightarrow> prev_scene_token st' (Suc i) (last_frame_url st'))"
        using Cons.IH[OF inv1 _ _ rest] Cons.prems(3) by simp
      with step Cons show ?thesis by simp
    qed
  qed
qed

lemma video_durations_nonempty: "video_durations engine d = Inr ds \<Longrightarrow> ds \<noteq> []"
  by (auto simp: video_durations_def split: if_splits)

lemma sound_effects_step_fields:
  "render_calls (sound_effects_step w skip i sc st) = render_calls st"
  "accepted (sound_effects_step w skip i sc st) = accepted st"
  "first_frame_of_first_scene_url (sound_effects_step w skip i sc st) = first_frame_of_first_scene_url st"
  "last_frame_url (sound_effects_step w skip i sc st) = last_frame_url st"
  "segment_last_frame_url (sound_effects_step w skip i sc st) = segment_last_frame_url st"
  "scene_videos (sound_effects_step w skip i sc st) = scene_videos st"
  "scene_video_files (sound_effects_step w skip i sc st) = scene_video_files st"
  "file_ops (sound_effects_step w skip i sc st) = file_ops st"
  by (simp_all add: sound_effects_step_def split: sound_outcome.splits)

lemma sound_effects_step_entry:
  "sound_effect_files (sound_effects_step w (skip_sound_effects a) i sc st) =
     sound_effect_files st @ [sound_entry w a i sc]"
  by (simp add: sound_effects_step_def sound_entry_def split: sound_outcome.splits)

lemma stitch_scene_fields:
  assumes "stitch_scene sc st = (r, st')"
  shows "render_calls st' = render_calls st \<and> accepted st' = accepted st
     \<and> first_frame_of_first_scene_url st' = first_frame_of_first_scene_url st
     \<and> last_frame_url st' = last_frame_url st
     \<and> sound_effect_files st' = sound_effect_files st
     \<and> (r = None \<longrightarrow>
          scene_video_files st' = scene_video_files st @ [SceneVideo (scene_number sc)]
          \<and> file_ops st' = file_ops st @
               [case scene_videos st of
                  [p] \<Rightarrow> Copied p (SceneVideo (scene_number sc))
                | ps \<Rightarrow> Concatenated ps (SceneVideo (scene_number sc))])"
  using assms
  by (auto simp: stitch_scene_def Let_def split: if_splits option.splits list.splits)

lemma segments_loop_files:
  assumes "segments_loop w eng i sc n v ds st = (None, st')"
  shows "scene_videos st' = scene_videos st @ map (segment_video_path sc n) [v..<v + length ds]
     \<and> scene_video_files st' = scene_video_files st
     \<and> sound_effect_files st' = sound_effect_files st
     \<and> file_ops st' = file_ops st"
  using assms
proof (induction ds arbitrary: v st)
  case Nil
  then show ?case by simp
next
  case (Cons d ds)
  obtain r1 st1 where b: "segment_body w eng i sc n v d st = (r1, st1)"
    by (cases "segment_body w eng i sc n v d st")
  with Cons.prems have r1: "r1 = None" and rest: "segments_loop w eng i sc n (Suc v) ds st1 = (None, st')"
    by (auto split: option.splits)
  note shape = segment_body_shape[OF b]
  from shape r1 have s1: "scene_videos st1 = scene_videos st @ [segment_video_path sc n v]"
    "scene_video_files st1 = scene_video_files st" "sound_effect_files st1 = sound_effect_files st"
    "file_ops st1 = file_ops st"
    by auto
  have "[v..<v + length (d # ds)] = v # [Suc v..<Suc v + length ds]"
    by (simp add: upt_rec)
  with Cons.IH[OF rest] s1 show ?case by simp
qed


lemma scene_body_inv:
  assumes si: "scene_inv a i st" and b: "scene_body w a i sc st = (r, st')"
  shows "(\<not> lora_in_first_frame_mode a \<longrightarrow> (\<forall>rc \<in> set (render_calls st'). chained_start st' rc))
       \<and> (\<forall>e \<in> set (accepted st'). compared_within_scene st' e)
       \<and> first_frame_of_first_scene_url st' = first_frame_of_first_scene_url st
       \<and> (r = None \<longrightarrow> scene_inv a (Suc i) st')"
proof (cases "video_durations (video_engine a) (scene_duration sc)")
  case (Inl e)
  with b have "st' = st" "r \<noteq> None" by (auto simp: scene_body_def)
  with si show ?thesis by (auto simp: scene_inv_def)
next
  case (Inr ds)
  define st2 where "st2 = first_frame_step w a i
      ((sound_effects_step w (skip_sound_effects a) i sc (st\<lparr>scene_videos := []\<rparr>))
         \<lparr>segment_last_frame_url := None\<rparr>)"
  have f2: "render_calls st2 = render_calls st" "accepted st2 = accepted st"
    "first_frame_of_first_scene_url st2 = first_frame_of_first_scene_url st"
    "last_frame_url st2 = last_frame_url st" "segment_last_frame_url st2 = None"
    "\<not> lora_in_first_frame_mode a \<longrightarrow> scene_start_image_url st2 = None"
    by (simp_all add: st2_def first_frame_step_def sound_effects_step_fields)
  have sub: "set (accepted st) \<subseteq> set (accepted st2)" using f2 by simp
  have inv2: "seg_inv a i 1 st2"
    unfolding seg_inv_def
    using si f2 chained_start_mono[OF sub f2(3)] compared_mono[OF sub]
    by (auto simp: scene_inv_def prev_scene_token_def)
  obtain r3 st3 where l: "segments_loop w (video_engine a) i sc (length ds) 1 ds st2 = (r3, st3)"
    by (cases "segments_loop w (video_engine a) i sc (length ds) 1 ds st2")
  have ne: "ds \<noteq> []" using Inr by (rule video_durations_nonempty)
  note li = segments_loop_inv[OF inv2 _ _ l]
  have li': "(\<not> lora_in_first_frame_mode a \<longrightarrow> (\<forall>rc \<in> set (render_calls st3). chained_start st3 rc))"
    "\<forall>e \<in> set (accepted st3). compared_within_scene st3 e"
    "first_frame_of_first_scene_url st3 = first_frame_of_first_scene_url st"
    "r3 = None \<longrightarrow> prev_scene_token st3 (Suc i) (last_frame_url st3)"
    using li ne f2 by simp_all
  show ?thesis
  proof (cases r3)
    case (Some e)
    with b Inr l have "st' = st3" "r = Some e"
      by (simp_all add: scene_body_def Let_def andthen_def st2_def)
    with li' show ?thesis by simp
  next
    case None
    obtain r4 st4 where s: "stitch_scene sc st3 = (r4, st4)" by (cases "stitch_scene sc st3")
    note sf = stitch_scene_fields[OF s]
    have same: "render_calls st' = render_calls st3" "accepted st' = accepted st3"
      "first_frame_of_first_scene_url st' = first_frame_of_first_scene_url st3"
      "last_frame_url st' = last_frame_url st3"
      using b Inr l None s sf
      by (auto simp: scene_body_def Let_def andthen_def st2_def split: option.splits)
    have sub3: "set (accepted st3) \<subseteq> set (accepted st')" using same by simp
    have c: "\<not> lora_in_first_frame_mode a \<longrightarrow> (\<forall>rc \<in> set (render_calls st'). chained_start st' rc)"
      using li'(1) same chained_start_mono[OF sub3 same(3)] by auto
    have d: "\<forall>e \<in> set (accepted st'). compared_within_scene st' e"
      using li'(2) same compared_mono[OF sub3] by auto
    have t: "prev_scene_token st' (Suc i) (last_frame_url st')"
      using li'(4) None same tokens_mono(2)[OF sub3] by simp
    from c d t same li'(3) show ?thesis by (simp add: scene_inv_def)
  qed
qed

lemma scene_body_lists:
  assumes b: "scene_body w a i sc st = (None, st')"
  shows "scene_video_files st' = scene_video_files st @ [SceneVideo (scene_number sc)]
     \<and> sound_effect_files st' = sound_effect_files st @ [sound_entry w a i sc]
     \<and> file_ops st' = file_ops st @ [scene_file_op (video_engine a) sc]"
proof (cases "video_durations (video_engine a) (scene_duration sc)")
  case (Inl e)
  with b show ?thesis by (simp add: scene_body_def)
next
  case (Inr ds)
  define st2 where "st2 = first_frame_step w a i
      ((sound_effects_step w (skip_sound_effects a) i sc (st\<lparr>scene_videos := []\<rparr>))
         \<lparr>segment_last_frame_url := None\<rparr>)"
  have f2: "scene_videos st2 = []" "scene_video_files st2 = scene_video_files st"
    "sound_effect_files st2 = sound_effect_files st @ [sound_entry w a i sc]"
    "file_ops st2 = file_ops st"
    by (simp_all add: st2_def first_frame_step_def sound_effects_step_fields
          sound_effects_step_entry)
  obtain r3 st3 where l: "segments_loop w (video_engine a) i sc (length ds) 1 ds st2 = (r3, st3)"
    by (cases "segments_loop w (video_engine a) i sc (length ds) 1 ds st2")
  obtain r4 st4 where s: "stitch_scene sc st3 = (r4, st4)" by (cases "stitch_scene sc st3")
  from b Inr l s have r3: "r3 = None" and r4: "r4 = None"
    and st': "st' = st4\<lparr>sleeps := sleeps st4 @ [2]\<rparr>"
    by (auto simp: scene_body_def Let_def andthen_def st2_def split: option.splits)
  note lf = segments_loop_files[OF l[unfolded r3]]
  have sv: "scene_videos st3 = segment_files (video_engine a) sc"
    using lf f2 Inr by (simp add: segment_files_def)
  note sf = stitch_scene_fields[OF s]
  from sf r4 lf f2 sv st' show ?thesis by (simp add: scene_file_op_def)
qed

lemma scenes_loop_inv:
  assumes "scene_inv a i st" and "scenes_loop w a i scenes st = (r, st')"
  shows "(\<not> lora_in_first_frame_mode a \<longrightarrow> (\<forall>rc \<in> set (render_calls st'). chained_start st' rc))
       \<and> (\<forall>e \<in> set (accepted st'). compared_within_scene st' e)
       \<and> first_frame_of_first_scene_url st' = first_frame_of_first_scene_url st"
  using assms
proof (induction scenes arbitrary: i st)
  case Nil
  then show ?case by (simp add: scene_inv_def)
next
  case (Cons sc scenes)
  obtain r1 st1 where b: "scene_body w a i sc st = (r1, st1)" by (cases "scene_body w a i sc st")
  note step = scene_body_inv[OF Cons.prems(1) b]
  show ?case
  proof (cases r1)
    case (Some e)
    with b Cons.prems(2) have "st' = st1" by simp
    with step show ?thesis by simp
  next
    case None
    with b Cons.prems(2) have rest: "scenes_loop w a (Suc i) scenes st1 = (r, st')" by simp
    from step None have "scene_inv a (Suc i) st1" by simp
    from Cons.IH[OF this rest] step show ?thesis by simp
  qed
qed

lemma scenes_loop_lists:
  assumes "scenes_loop w a i scenes st = (None, st')"
  shows "scene_video_files st' = scene_video_files st @ map (\<lambda>sc. SceneVideo (scene_number sc)) scenes
     \<and> sound_effect_files st' =
         sound_effect_files st @ map (\<lambda>(j, sc). sound_entry w a j sc) (List.enumerate i scenes)
     \<and> file_ops st' = file_ops st @ map (scene_file_op (video_engine a)) scenes"
  using assms
proof (induction scenes arbitrary: i st)
  case Nil
  then show ?case by simp
next
  case (Cons sc scenes)
  obtain r1 st1 where b: "scene_body w a i sc st = (r1, st1)" by (cases "scene_body w a i sc st")
  with Cons.prems have r1: "r1 = None" and rest: "scenes_loop w a (Suc i) scenes st1 = (None, st')"
    by (auto split: option.splits)
  from scene_body_lists[OF b[unfolded r1]] Cons.IH[OF rest] show ?case by simp
qed

lemma initial_image_fields:
  assumes "initial_image w a st = (r, st')"
  shows "render_calls st' = render_calls st \<and> accepted st' = accepted st
     \<and> scene_video_files st' = scene_video_files st
     \<and> sound_effect_files st' = sound_effect_files st \<and> file_ops st' = file_ops st"
  using assms by (auto simp: initial_image_def split: if_splits outcome.splits)

lemma generate_scenes_inv:
  assumes e: "render_calls st0 = []" "accepted st0 = []"
    and g: "generate_scenes w a scenes st0 = (r, st')"
  shows "(\<not> lora_in_first_frame_mode a \<longrightarrow> (\<forall>rc \<in> set (render_calls st'). chained_start st' rc))
       \<and> (\<forall>e \<in> set (accepted st'). compared_within_scene st' e)"
proof -
  define st where "st = st0\<lparr>scene_video_files := [], sound_effect_files := [],
                  last_frame_url := None, first_frame_of_first_scene_url := None\<rparr>"
  have e0: "render_calls st = []" "accepted st = []" using e by (simp_all add: st_def)
  obtain r1 st1 where i: "initial_image w a st = (r1, st1)" by (cases "initial_image w a st")
  have e1: "render_calls st1 = []" "accepted st1 = []"
    using initial_image_fields[OF i] e0 by simp_all
  consider (early) "st' = st" | (init) "st' = st1" | (loop) "scenes_loop w a 0 scenes st1 = (r, st')"
    using g i by (auto simp: generate_scenes_def Let_def st_def[symmetric] andthen_def
          split: if_splits option.splits)
  then show ?thesis
  proof cases
    case early
    with e0 show ?thesis by simp
  next
    case init
    with e1 show ?thesis by simp
  next
    case loop
    have "scene_inv a 0 st1" using e1 by (simp add: scene_inv_def)
    from scenes_loop_inv[OF this loop] show ?thesis by simp
  qed
qed

lemma generate_scenes_lists:
  assumes g: "generate_scenes w a scenes st0 = (None, st')"
  shows "scene_video_files st' = map (\<lambda>sc. SceneVideo (scene_number sc)) scenes
     \<and> sound_effect_files st' = map (\<lambda>(j, sc). sound_entry w a j sc) (List.enumerate 0 scenes)
     \<and> file_ops st' = file_ops st0 @ map (scene_file_op (video_engine a)) scenes"
proof -
  define st where "st = st0\<lparr>scene_video_files := [], sound_effect_files := [],
                  last_frame_url := None, first_frame_of_first_scene_url := None\<rparr>"
  obtain r1 st1 where i: "initial_image w a st = (r1, st1)" by (cases "initial_image w a st")
  have f1: "scene_video_files st1 = []" "sound_effect_files st1 = []" "file_ops st1 = file_ops st0"
    using initial_image_fields[OF i] by (simp_all add: st_def)
  have loop: "scenes_loop w a 0 scenes st1 = (None, st')"
    using g i by (auto simp: generate_scenes_def Let_def st_def[symmetric] andthen_def
          split: if_splits option.splits)
  from scenes_loop_lists[OF loop] f1 show ?thesis by simp
qed

text \<open>
  C4. With LoRA first-frame mode off, in a run of generate_scenes that starts
  with empty logs, whether it completes or raises, the starting frame of every
  engine call is absent, or the URL accepted for the previous segment of the
  same scene (segment not the first of its scene), or the URL accepted for the
  last segment of the previous scene (first segment of a later scene), or the
  initial frame URL (first segment of the first scene).
\<close>

theorem start_frame_follows_the_chain:
  assumes "\<not> lora_in_first_frame_mode a" and "render_calls st0 = []" and "accepted st0 = []"
    and "generate_scenes w a scenes st0 = (r, st')"
  shows "\<forall>rc \<in> set (render_calls st'). chained_start st' rc"
  using generate_scenes_inv[OF assms(2,3,4)] assms(1) by simp

theorem start_frame_follows_the_chain_witness:
  "\<not> lora_in_first_frame_mode sound_args \<and> render_calls init_state = []
   \<and> accepted init_state = []
   \<and> list_all
         (chained_start (snd (generate_scenes fresh_urls_world sound_args two_scenes init_state)))
         (render_calls (snd (generate_scenes fresh_urls_world sound_args two_scenes init_state)))
   \<and> map rc_image_url (render_calls
         (snd (generate_scenes fresh_urls_world sound_args two_scenes init_state)))
       = [None, Some ''u'', Some ''uu'']"
proof -
  have a: "\<not> lora_in_first_frame_mode sound_args" by (simp add: sound_args_def plain_args_def)
  have b: "render_calls init_state = []" "accepted init_state = []"
    by (simp_all add: init_state_def)
  have c: "map rc_image_url (render_calls
         (snd (generate_scenes fresh_urls_world sound_args two_scenes init_state)))
       = [None, Some ''u'', Some ''uu'']"
    by code_simp
  from start_frame_follows_the_chain[OF a b surjective_pairing] a b c show ?thesis
    by (simp add: list_all_iff)
qed

text \<open>
  C10. When generate_scenes completes, both returned lists have one entry per
  scene, in the order of the scenes: entry i of scene_video_files is the path
  of scene i's video, entry i of sound_effect_files is scene i's sound file or
  None as \<open>sound_entry\<close> says, and the i-th copy or concatenation made during
  the run wrote that path from the segment files of scene i.
\<close>

theorem returned_lists_are_aligned_with_scenes:
  assumes "generate_scenes w a scenes st0 = (None, st')"
  shows "length (scene_video_files st') = length scenes
     \<and> length (sound_effect_files st') = length scenes
     \<and> (\<forall>i < length scenes.
           scene_video_files st' ! i = SceneVideo (scene_number (scenes ! i))
         \<and> sound_effect_files st' ! i = sound_entry w a i (scenes ! i)
         \<and> file_ops st' ! (length (file_ops st0) + i) =
             scene_file_op (video_engine a) (scenes ! i))"
  using generate_scenes_lists[OF assms]
  by (simp add: nth_append nth_enumerate_eq)

theorem returned_lists_are_aligned_with_scenes_witness:
  "fst (generate_scenes fresh_urls_world sound_args two_scenes init_state) = None
   \<and> scene_video_files (snd (generate_scenes fresh_urls_world sound_args two_scenes init_state))
       = [SceneVideo 1, SceneVideo 2]
   \<and> sound_effect_files (snd (generate_scenes fresh_urls_world sound_args two_scenes init_state))
       = [None, Some (SoundEffect 2)]
   \<and> length (scene_video_files
         (snd (generate_scenes fresh_urls_world sound_args two_scenes init_state)))
       = length two_scenes"
proof -
  have a: "fst (generate_scenes fresh_urls_world sound_args two_scenes init_state) = None"
    by code_simp
  then have r: "generate_scenes fresh_urls_world sound_args two_scenes init_state =
      (None, snd (generate_scenes fresh_urls_world sound_args two_scenes init_state))"
    by (metis prod.collapse)
  have b: "scene_video_files
       (snd (generate_scenes fresh_urls_world sound_args two_scenes init_state))
       = [SceneVideo 1, SceneVideo 2]"
    by code_simp
  have c: "sound_effect_files
       (snd (generate_scenes fresh_urls_world sound_args two_scenes init_state))
       = [None, Some (SoundEffect 2)]"
    by code_simp
  from returned_lists_are_aligned_with_scenes[OF r] a b c show ?thesis by simp
qed

text \<open>
  C3 at a concrete run. Two Luma scenes of one segment each, and an uploader
  that answers the same URL every time. The upload of the second scene returns
  the token held from the first scene, and is accepted at once: the run
  completes with two uploads in all, the second accepted upload was compared
  with None, and its URL equals the first one.
\<close>

theorem repeated_url_accepted_across_scenes:
  "fst (generate_scenes (stub_world (\<lambda>k. Returns (Some ''same''))) (plain_args ''luma'')
          [\<lparr>scene_number = 1, scene_duration = 5\<rparr>, \<lparr>scene_number = 2, scene_duration = 5\<rparr>]
          init_state) = None
   \<and> uploads (snd (generate_scenes (stub_world (\<lambda>k. Returns (Some ''same'')))
          (plain_args ''luma'')
          [\<lparr>scene_number = 1, scene_duration = 5\<rparr>, \<lparr>scene_number = 2, scene_duration = 5\<rparr>]
          init_state)) = 2
   \<and> accepted (snd (generate_scenes (stub_world (\<lambda>k. Returns (Some ''same'')))
          (plain_args ''luma'')
          [\<lparr>scene_number = 1, scene_duration = 5\<rparr>, \<lparr>scene_number = 2, scene_duration = 5\<rparr>]
          init_state)) =
       [\<lparr>acc_scene = 0, acc_vid_idx = 1, acc_is_last = True, acc_url = Some ''same'',
          acc_compared = None\<rparr>,
        \<lparr>acc_scene = 1, acc_vid_idx = 1, acc_is_last = True, acc_url = Some ''same'',
          acc_compared = None\<rparr>]
   \<and> map rc_image_url (render_calls (snd (generate_scenes
          (stub_world (\<lambda>k. Returns (Some ''same''))) (plain_args ''luma'')
          [\<lparr>scene_number = 1, scene_duration = 5\<rparr>, \<lparr>scene_number = 2, scene_duration = 5\<rparr>]
          init_state))) = [None, Some ''same'']"
  by code_simp

theorem repeated_url_accepted_across_scenes_witness:
  "map acc_url (accepted (snd (generate_scenes (stub_world (\<lambda>k. Returns (Some ''same'')))
          (plain_args ''luma'')
          [\<lparr>scene_number = 1, scene_duration = 5\<rparr>, \<lparr>scene_number = 2, scene_duration = 5\<rparr>]
          init_state))) = [Some ''same'', Some ''same'']
   \<and> map acc_compared (accepted (snd (generate_scenes
          (stub_world (\<lambda>k. Returns (Some ''same''))) (plain_args ''luma'')
          [\<lparr>scene_number = 1, scene_duration = 5\<rparr>, \<lparr>scene_number = 2, scene_duration = 5\<rparr>]
          init_state))) = [None, None]"
  using repeated_url_accepted_across_scenes by simp

end
